theory Spec2Isabelle
  imports Complex_Main "HOL-Library.Word"
begin

section \<open>Errors, pointers and machine integers\<close>

text \<open>
  The packed views of \<^verbatim>\<open>data_spec_packed.cuh\<close> are plain structs of raw pointers and
  integers, filled by constructors that read Torch tensors. Two things can go wrong:
  a Torch accessor throws (\<open>Torch_Error\<close>, a \<^verbatim>\<open>c10::Error\<close>), or the C++ itself has no
  defined behaviour (a signed overflow, a read through a null pointer or past the end
  of a buffer): \<open>Undefined_Behaviour\<close>. Every constructor returns \<open>error + view\<close>.
\<close>

datatype error = Torch_Error | Undefined_Behaviour

definition ebind :: "error + 'a \<Rightarrow> ('a \<Rightarrow> error + 'b) \<Rightarrow> error + 'b" where
  "ebind m f = (case m of Inl e \<Rightarrow> Inl e | Inr v \<Rightarrow> f v)"

text \<open>
  A raw pointer \<^verbatim>\<open>T*\<close> is either null or points at the first element of a buffer,
  which the model carries along as the list of its elements.
\<close>

datatype 'a ptr = nullptr | Ptr "'a list"

text \<open>\<^verbatim>\<open>p[j]\<close>: defined only for a non-null pointer and an index inside the buffer.\<close>

definition load :: "'a ptr \<Rightarrow> int \<Rightarrow> error + 'a" where
  "load p j =
     (case p of
        nullptr \<Rightarrow> Inl Undefined_Behaviour
      | Ptr xs \<Rightarrow>
          if 0 \<le> j \<and> j < int (length xs) then Inr (xs ! nat j)
          else Inl Undefined_Behaviour)"

type_synonym int32_t = "32 word"
type_synonym int64_t = "64 word"

text \<open>
  Signed \<^verbatim>\<open>*\<close> and \<^verbatim>\<open>+\<close> at width \<open>LENGTH('w)\<close>: the result when it fits, undefined
  behaviour when it does not.
\<close>

definition in_range :: "'w::len word \<Rightarrow> int \<Rightarrow> bool" where
  "in_range w v \<longleftrightarrow> - (2 ^ (LENGTH('w) - 1)) \<le> v \<and> v < 2 ^ (LENGTH('w) - 1)"

definition smul :: "'w::len word \<Rightarrow> 'w word \<Rightarrow> error + 'w word" where
  "smul a b = (if in_range a (sint a * sint b) then Inr (a * b) else Inl Undefined_Behaviour)"

definition sadd :: "'w::len word \<Rightarrow> 'w word \<Rightarrow> error + 'w word" where
  "sadd a b = (if in_range a (sint a + sint b) then Inr (a + b) else Inl Undefined_Behaviour)"

text \<open>
  The conversion of an \<^verbatim>\<open>int64_t\<close> to an \<^verbatim>\<open>int32_t\<close>, implicit in a member
  initialiser or written \<^verbatim>\<open>(int32_t)v\<close>: the low 32 bits.
\<close>

definition narrow32 :: "int64_t \<Rightarrow> int32_t" where
  "narrow32 v = scast v"

section \<open>Torch tensors\<close>

text \<open>
  What the constructors use of \<^verbatim>\<open>torch::Tensor\<close>: a tensor is undefined (\<open>None\<close>) or has
  a shape and a buffer. \<open>defined\<close>, \<open>data_ptr\<close>, \<open>dim\<close>, \<open>numel\<close> and \<open>size_at\<close> (Torch's \<^verbatim>\<open>size\<close>)
  are the accessors of the same names. \<open>data_ptr\<close> of an undefined tensor throws (its scalar
  type is not the one asked for); the element type of a defined tensor is fixed by its
  HOL type. \<open>size_at t d\<close> counts a negative \<open>d\<close> from the end and throws when \<open>d\<close> names no
  dimension. The other accessors are only ever reached on a defined tensor, either
  behind a \<open>defined\<close> test or after a \<open>data_ptr\<close> that has already thrown; the model
  lets them throw on an undefined one.
\<close>

record 'a tensor_impl =
  sizes :: "nat list"
  storage :: "'a list"

type_synonym 'a Tensor = "'a tensor_impl option"

definition defined :: "'a Tensor \<Rightarrow> bool" where
  "defined t \<longleftrightarrow> t \<noteq> None"

definition data_ptr :: "'a Tensor \<Rightarrow> error + 'a ptr" where
  "data_ptr t = (case t of None \<Rightarrow> Inl Torch_Error | Some i \<Rightarrow> Inr (Ptr (storage i)))"

definition dim :: "'a Tensor \<Rightarrow> error + int" where
  "dim t = (case t of None \<Rightarrow> Inl Torch_Error | Some i \<Rightarrow> Inr (int (length (sizes i))))"

definition numel :: "'a Tensor \<Rightarrow> error + int64_t" where
  "numel t = (case t of None \<Rightarrow> Inl Torch_Error | Some i \<Rightarrow> Inr (of_nat (prod_list (sizes i))))"

definition size_at :: "'a Tensor \<Rightarrow> int \<Rightarrow> error + int64_t" where
  "size_at t d =
     (case t of
        None \<Rightarrow> Inl Torch_Error
      | Some i \<Rightarrow>
          (let n = int (length (sizes i)); k = (if d < 0 then d + n else d)
           in if 0 \<le> k \<and> k < n then Inr (of_nat (sizes i ! nat k)) else Inl Torch_Error))"

text \<open>
  The invariant Torch keeps for every defined tensor: the buffer holds one element per
  index, and every extent and the element count are non-negative \<^verbatim>\<open>int64_t\<close> values.
\<close>

definition tensor_ok :: "'a tensor_impl \<Rightarrow> bool" where
  "tensor_ok t \<longleftrightarrow>
     length (storage t) = prod_list (sizes t) \<and>
     prod_list (sizes t) < 2 ^ 63 \<and>
     list_all (\<lambda>d. d < 2 ^ 63) (sizes t)"

section \<open>Ray segments\<close>

text \<open>
  Modelled from the spec: \<^verbatim>\<open>RaySegmentsSpec\<close> is declared in \<^verbatim>\<open>data_spec.hpp\<close>, which is
  not part of the sources at hand. Its fields are the six tensors the constructors
  read, with the element types they ask \<open>data_ptr\<close> for (section 6 of the spec).
\<close>

record 'f RaySegmentsSpec =
  spec_edges :: "'f Tensor"
  spec_is_left :: "bool Tensor"
  spec_is_right :: "bool Tensor"
  spec_chunk_starts :: "int64_t Tensor"
  spec_chunk_cnts :: "int64_t Tensor"
  spec_ray_ids :: "int64_t Tensor"

subsection \<open>The batched-capable view (\<^verbatim>\<open>data_spec_packed.cuh\<close>)\<close>

record 'f PackedRaySegmentsSpec =
  edges :: "'f ptr"
  is_batched :: bool
  chunk_starts :: "int64_t ptr"
  chunk_cnts :: "int64_t ptr"
  ray_ids :: "int64_t ptr"
  is_left :: "bool ptr"
  is_right :: "bool ptr"
  n_edges :: int64_t
  n_rays :: int32_t
  n_edges_per_ray :: int32_t

text \<open>\<^verbatim>\<open>t.defined() ? t.data_ptr<T>() : nullptr\<close>\<close>

definition ptr_or_null :: "'a Tensor \<Rightarrow> error + 'a ptr" where
  "ptr_or_null t = (if defined t then data_ptr t else Inr nullptr)"

text \<open>
  The constructor. The members are initialised in the order of their declaration, which
  is the order of the initialiser list.
\<close>

definition PackedRaySegmentsSpec ::
  "'f RaySegmentsSpec \<Rightarrow> error + 'f PackedRaySegmentsSpec" where
  "PackedRaySegmentsSpec spec =
     ebind (ptr_or_null (spec_edges spec)) (\<lambda>e.
     ebind (if defined (spec_edges spec)
            then ebind (dim (spec_edges spec)) (\<lambda>n. Inr (1 < n)) else Inr False) (\<lambda>b.
     ebind (ptr_or_null (spec_chunk_starts spec)) (\<lambda>cs.
     ebind (ptr_or_null (spec_chunk_cnts spec)) (\<lambda>cc.
     ebind (ptr_or_null (spec_ray_ids spec)) (\<lambda>ri.
     ebind (ptr_or_null (spec_is_left spec)) (\<lambda>il.
     ebind (ptr_or_null (spec_is_right spec)) (\<lambda>ir.
     ebind (if defined (spec_edges spec) then numel (spec_edges spec) else Inr 0) (\<lambda>ne.
     ebind (if defined (spec_chunk_cnts spec) then size_at (spec_chunk_cnts spec) 0 else Inr 0) (\<lambda>nr.
     ebind (if defined (spec_edges spec) then size_at (spec_edges spec) (- 1) else Inr 0) (\<lambda>np.
     Inr \<lparr>edges = e, is_batched = b, chunk_starts = cs, chunk_cnts = cc,
          ray_ids = ri, is_left = il, is_right = ir, n_edges = ne,
          n_rays = narrow32 nr, n_edges_per_ray = narrow32 np\<rparr>))))))))))"

subsection \<open>The earlier, flattened-only view\<close>

record 'f PackedRaySegmentsSpec0 =
  edges0 :: "'f ptr"
  is_left0 :: "bool ptr"
  is_right0 :: "bool ptr"
  chunk_starts0 :: "int64_t ptr"
  chunk_cnts0 :: "int64_t ptr"
  ray_ids0 :: "int64_t ptr"
  n_edges0 :: int64_t
  n_rays0 :: int64_t

definition PackedRaySegmentsSpec0 ::
  "'f RaySegmentsSpec \<Rightarrow> error + 'f PackedRaySegmentsSpec0" where
  "PackedRaySegmentsSpec0 spec =
     ebind (ptr_or_null (spec_edges spec)) (\<lambda>e.
     ebind (ptr_or_null (spec_is_left spec)) (\<lambda>il.
     ebind (ptr_or_null (spec_is_right spec)) (\<lambda>ir.
     ebind (ptr_or_null (spec_chunk_starts spec)) (\<lambda>cs.
     ebind (data_ptr (spec_chunk_cnts spec)) (\<lambda>cc.
     ebind (ptr_or_null (spec_ray_ids spec)) (\<lambda>ri.
     ebind (if defined (spec_edges spec) then numel (spec_edges spec) else Inr 0) (\<lambda>ne.
     ebind (size_at (spec_chunk_cnts spec) 0) (\<lambda>nr.
     Inr \<lparr>edges0 = e, is_left0 = il, is_right0 = ir, chunk_starts0 = cs,
          chunk_cnts0 = cc, ray_ids0 = ri, n_edges0 = ne, n_rays0 = nr\<rparr>))))))))"

section \<open>The multiscale grid\<close>

text \<open>\<^verbatim>\<open>int3\<close> and \<^verbatim>\<open>float3\<close>: three components named \<open>x\<close>, \<open>y\<close>, \<open>z\<close>.\<close>

record 'a vec3 =
  x :: 'a
  y :: 'a
  z :: 'a

type_synonym int3 = "int32_t vec3"

text \<open>
  Modelled from the spec: \<^verbatim>\<open>MultiScaleGridSpec\<close> is declared in \<^verbatim>\<open>data_spec.hpp\<close>, which
  is not part of the sources at hand. Its fields are the three tensors the constructors
  read; the earlier variant calls the second one \<^verbatim>\<open>binary\<close>.
\<close>

record 'f MultiScaleGridSpec =
  spec_data :: "'f Tensor"
  spec_occupied :: "bool Tensor"
  spec_base_aabb :: "'f Tensor"

record 'f PackedMultiScaleGridSpec =
  data :: "'f ptr"
  occupied :: "bool ptr"
  base_aabb :: "'f ptr"
  levels :: int32_t
  resolution :: int3

definition PackedMultiScaleGridSpec ::
  "'f MultiScaleGridSpec \<Rightarrow> error + 'f PackedMultiScaleGridSpec" where
  "PackedMultiScaleGridSpec spec =
     ebind (data_ptr (spec_data spec)) (\<lambda>d.
     ebind (data_ptr (spec_occupied spec)) (\<lambda>oc.
     ebind (data_ptr (spec_base_aabb spec)) (\<lambda>b.
     ebind (size_at (spec_data spec) 0) (\<lambda>l.
     ebind (size_at (spec_data spec) 1) (\<lambda>r1.
     ebind (size_at (spec_data spec) 2) (\<lambda>r2.
     ebind (size_at (spec_data spec) 3) (\<lambda>r3.
     Inr \<lparr>data = d, occupied = oc, base_aabb = b, levels = narrow32 l,
          resolution = \<lparr>x = narrow32 r1, y = narrow32 r2, z = narrow32 r3\<rparr>\<rparr>)))))))"

text \<open>The earlier variant: the same constructor, with \<^verbatim>\<open>int\<close> for \<^verbatim>\<open>int32_t\<close>.\<close>

record 'f PackedMultiScaleGridSpec0 =
  data0 :: "'f ptr"
  binary :: "bool ptr"
  base_aabb0 :: "'f ptr"
  levels0 :: int32_t
  resolution0 :: int3

definition PackedMultiScaleGridSpec0 ::
  "'f MultiScaleGridSpec \<Rightarrow> error + 'f PackedMultiScaleGridSpec0" where
  "PackedMultiScaleGridSpec0 spec =
     ebind (data_ptr (spec_data spec)) (\<lambda>d.
     ebind (data_ptr (spec_occupied spec)) (\<lambda>oc.
     ebind (data_ptr (spec_base_aabb spec)) (\<lambda>b.
     ebind (size_at (spec_data spec) 0) (\<lambda>l.
     ebind (size_at (spec_data spec) 1) (\<lambda>r1.
     ebind (size_at (spec_data spec) 2) (\<lambda>r2.
     ebind (size_at (spec_data spec) 3) (\<lambda>r3.
     Inr \<lparr>data0 = d, binary = oc, base_aabb0 = b, levels0 = narrow32 l,
          resolution0 = \<lparr>x = narrow32 r1, y = narrow32 r2, z = narrow32 r3\<rparr>\<rparr>)))))))"

section \<open>Single-precision floats\<close>

text \<open>
  A \<^verbatim>\<open>float\<close> is a signed zero, a non-zero finite value, a signed infinity or a NaN;
  the sign is \<open>True\<close> for minus. The special values follow IEEE 754. Finite results
  are kept exact: the rounding to 24 bits, and with it overflow and underflow, is not
  modelled. \<open>Fin 0\<close> is read as \<open>+0\<close>.
\<close>

datatype f32 = Zero bool | Fin rat | Inf bool | NaN

fun is_nan :: "f32 \<Rightarrow> bool" where
  "is_nan NaN = True"
| "is_nan _ = False"

fun is_inf :: "f32 \<Rightarrow> bool" where
  "is_inf (Inf _) = True"
| "is_inf _ = False"

fun sign :: "f32 \<Rightarrow> bool" where
  "sign (Zero s) = s"
| "sign (Fin q) = (q < 0)"
| "sign (Inf s) = s"
| "sign NaN = False"

fun rat_of :: "f32 \<Rightarrow> rat" where
  "rat_of (Fin q) = q"
| "rat_of _ = 0"

definition is_finite :: "f32 \<Rightarrow> bool" where
  "is_finite a \<longleftrightarrow> \<not> is_nan a \<and> \<not> is_inf a"

text \<open>A finite result \<open>q\<close>; \<open>s\<close> is the sign it takes when it is a zero.\<close>

definition fin :: "bool \<Rightarrow> rat \<Rightarrow> f32" where
  "fin s q = (if q = 0 then Zero s else Fin q)"

fun fneg :: "f32 \<Rightarrow> f32" where
  "fneg (Zero s) = Zero (\<not> s)"
| "fneg (Fin q) = fin True (- q)"
| "fneg (Inf s) = Inf (\<not> s)"
| "fneg NaN = NaN"

definition fadd :: "f32 \<Rightarrow> f32 \<Rightarrow> f32" where
  "fadd a b =
     (if is_nan a \<or> is_nan b then NaN
      else if is_inf a then (if is_inf b \<and> sign a \<noteq> sign b then NaN else a)
      else if is_inf b then b
      else fin (sign a \<and> sign b) (rat_of a + rat_of b))"

definition fsub :: "f32 \<Rightarrow> f32 \<Rightarrow> f32" where
  "fsub a b = fadd a (fneg b)"

definition fmul :: "f32 \<Rightarrow> f32 \<Rightarrow> f32" where
  "fmul a b =
     (if is_nan a \<or> is_nan b then NaN
      else if is_inf a \<or> is_inf b then
        (if (\<not> is_inf a \<and> rat_of a = 0) \<or> (\<not> is_inf b \<and> rat_of b = 0) then NaN
         else Inf (sign a \<noteq> sign b))
      else fin (sign a \<noteq> sign b) (rat_of a * rat_of b))"

definition fdiv :: "f32 \<Rightarrow> f32 \<Rightarrow> f32" where
  "fdiv a b =
     (if is_nan a \<or> is_nan b then NaN
      else if is_inf a then (if is_inf b then NaN else Inf (sign a \<noteq> sign b))
      else if is_inf b then Zero (sign a \<noteq> sign b)
      else if rat_of b = 0 then
        (if rat_of a = 0 then NaN else Inf (sign a \<noteq> sign b))
      else fin (sign a \<noteq> sign b) (rat_of a / rat_of b))"

text \<open>
  The comparisons \<^verbatim>\<open><\<close> and \<^verbatim>\<open><=\<close>: false as soon as an operand is a NaN; the two
  zeros are equal. \<open>rank\<close> places the infinities below and above every finite value.
\<close>

definition rank :: "f32 \<Rightarrow> int" where
  "rank a = (if is_inf a then (if sign a then - 1 else 1) else 0)"

definition flt :: "f32 \<Rightarrow> f32 \<Rightarrow> bool" where
  "flt a b \<longleftrightarrow>
     \<not> is_nan a \<and> \<not> is_nan b \<and>
     (rank a < rank b \<or> (rank a = 0 \<and> rank b = 0 \<and> rat_of a < rat_of b))"

definition fle :: "f32 \<Rightarrow> f32 \<Rightarrow> bool" where
  "fle a b \<longleftrightarrow>
     \<not> is_nan a \<and> \<not> is_nan b \<and>
     (rank a < rank b \<or> (rank a = rank b \<and> (rank a \<noteq> 0 \<or> rat_of a \<le> rat_of b)))"

text \<open>\<^verbatim>\<open>1.0f\<close>, and the conversion of an \<^verbatim>\<open>int32_t\<close> to \<^verbatim>\<open>float\<close>.\<close>

definition one :: f32 where
  "one = Fin 1"


type_synonym float3 = "f32 vec3"

section \<open>Rays\<close>

text \<open>
  Modelled from the spec: \<^verbatim>\<open>RaysSpec\<close> is declared in \<^verbatim>\<open>data_spec.hpp\<close>, which is not
  part of the sources at hand. Its fields are the two tensors of shape \<open>[N, 3]\<close> the
  constructor reads.
\<close>

record 'f RaysSpec =
  spec_origins :: "'f Tensor"
  spec_dirs :: "'f Tensor"

text \<open>
  \<^verbatim>\<open>PackedRaysSpec\<close>. \<open>N\<close> and the ray index are \<^verbatim>\<open>int32_t\<close> in
  \<^verbatim>\<open>data_spec_packed.cuh\<close> and \<^verbatim>\<open>int64_t\<close> in the earlier variant; the record takes
  the index type, and the per-ray constructor its width \<open>'w\<close>, as a parameter.
\<close>

record ('f, 'i) PackedRaysSpec =
  origins :: "'f ptr"
  dirs :: "'f ptr"
  N :: 'i

definition PackedRaysSpec :: "'f RaysSpec \<Rightarrow> error + ('f, int32_t) PackedRaysSpec" where
  "PackedRaysSpec spec =
     ebind (data_ptr (spec_origins spec)) (\<lambda>os.
     ebind (data_ptr (spec_dirs spec)) (\<lambda>ds.
     ebind (size_at (spec_origins spec) 0) (\<lambda>n.
     Inr \<lparr>origins = os, dirs = ds, N = narrow32 n\<rparr>)))"

definition PackedRaysSpec0 :: "'f RaysSpec \<Rightarrow> error + ('f, int64_t) PackedRaysSpec" where
  "PackedRaysSpec0 spec =
     ebind (data_ptr (spec_origins spec)) (\<lambda>os.
     ebind (data_ptr (spec_dirs spec)) (\<lambda>ds.
     ebind (size_at (spec_origins spec) 0) (\<lambda>n.
     Inr \<lparr>origins = os, dirs = ds, N = n\<rparr>)))"

record SingleRaySpec =
  origin :: float3
  dir :: float3
  inv_dir :: float3
  tmin :: f32
  tmax :: f32

text \<open>\<^verbatim>\<open>p[id * 3]\<close> and \<^verbatim>\<open>p[id * 3 + k]\<close>, in the signed arithmetic of the index type.\<close>

definition elem0 :: "'a ptr \<Rightarrow> 'w::len word \<Rightarrow> error + 'a" where
  "elem0 p i = ebind (smul i 3) (\<lambda>a. load p (sint a))"

definition elem :: "'a ptr \<Rightarrow> 'w::len word \<Rightarrow> 'w word \<Rightarrow> error + 'a" where
  "elem p i k = ebind (smul i 3) (\<lambda>a. ebind (sadd a k) (\<lambda>j. load p (sint j)))"

definition SingleRaySpec ::
  "(f32, 'w::len word) PackedRaysSpec \<Rightarrow> 'w word \<Rightarrow> f32 \<Rightarrow> f32 \<Rightarrow> error + SingleRaySpec" where
  "SingleRaySpec rays i t0 t1 =
     ebind (elem0 (origins rays) i) (\<lambda>o0.
     ebind (elem (origins rays) i 1) (\<lambda>o1.
     ebind (elem (origins rays) i 2) (\<lambda>o2.
     ebind (elem0 (dirs rays) i) (\<lambda>d0.
     ebind (elem (dirs rays) i 1) (\<lambda>d1.
     ebind (elem (dirs rays) i 2) (\<lambda>d2.
     ebind (elem0 (dirs rays) i) (\<lambda>e0.
     ebind (elem (dirs rays) i 1) (\<lambda>e1.
     ebind (elem (dirs rays) i 2) (\<lambda>e2.
     Inr \<lparr>origin = \<lparr>x = o0, y = o1, z = o2\<rparr>,
          dir = \<lparr>x = d0, y = d1, z = d2\<rparr>,
          inv_dir = \<lparr>x = fdiv one e0, y = fdiv one e1, z = fdiv one e2\<rparr>,
          tmin = t0, tmax = t1\<rparr>)))))))))"

section \<open>Axis-aligned boxes\<close>

record 'f AABBSpec =
  aabb_min :: "'f vec3"
  aabb_max :: "'f vec3"

text \<open>\<^verbatim>\<open>AABBSpec(float *aabb)\<close>: six reads, the first three the min corner.\<close>

definition AABBSpec :: "'f ptr \<Rightarrow> error + 'f AABBSpec" where
  "AABBSpec aabb =
     ebind (load aabb 0) (\<lambda>a0.
     ebind (load aabb 1) (\<lambda>a1.
     ebind (load aabb 2) (\<lambda>a2.
     ebind (load aabb 3) (\<lambda>a3.
     ebind (load aabb 4) (\<lambda>a4.
     ebind (load aabb 5) (\<lambda>a5.
     Inr \<lparr>aabb_min = \<lparr>x = a0, y = a1, z = a2\<rparr>,
          aabb_max = \<lparr>x = a3, y = a4, z = a5\<rparr>\<rparr>))))))"

text \<open>\<^verbatim>\<open>AABBSpec(float3 min, float3 max)\<close>\<close>

definition AABBSpec_of_corners :: "'f vec3 \<Rightarrow> 'f vec3 \<Rightarrow> 'f AABBSpec" where
  "AABBSpec_of_corners mn mx =
     \<lparr>aabb_min = \<lparr>x = x mn, y = y mn, z = z mn\<rparr>,
      aabb_max = \<lparr>x = x mx, y = y mx, z = z mx\<rparr>\<rparr>"

section \<open>Ray-box intersection\<close>

text \<open>
  Modelled from the spec: the slab intersection of a ray with a box is not part of the
  sources at hand, which hold only the two structs it takes. Section 4.1 of the spec:
  for each axis the candidates \<open>(min[k] - origin[k]) * inv_dir[k]\<close> and
  \<open>(max[k] - origin[k]) * inv_dir[k]\<close> are computed and ordered, entry before exit; the
  three pairs are intersected with each other and with \<open>[tmin, tmax]\<close>; the result is
  empty when its entry lies after its exit. \<open>slab\<close> orders by comparing the two
  candidates, \<open>clip\<close> intersects two intervals by comparing their ends.
\<close>

definition candidate :: "f32 \<Rightarrow> f32 \<Rightarrow> f32 \<Rightarrow> f32" where
  "candidate m org idir = fmul (fsub m org) idir"

definition slab :: "f32 \<Rightarrow> f32 \<Rightarrow> f32 \<Rightarrow> f32 \<Rightarrow> f32 \<times> f32" where
  "slab lo hi org idir =
     (let t1 = candidate lo org idir; t2 = candidate hi org idir
      in if fle t1 t2 then (t1, t2) else (t2, t1))"

definition clip :: "f32 \<times> f32 \<Rightarrow> f32 \<times> f32 \<Rightarrow> f32 \<times> f32" where
  "clip a b =
     (if flt (fst a) (fst b) then fst b else fst a,
      if flt (snd b) (snd a) then snd b else snd a)"

definition ray_aabb_intersect :: "SingleRaySpec \<Rightarrow> f32 AABBSpec \<Rightarrow> f32 \<times> f32" where
  "ray_aabb_intersect ray box =
     clip (clip (clip
       (slab (x (aabb_min box)) (x (aabb_max box)) (x (origin ray)) (x (inv_dir ray)))
       (slab (y (aabb_min box)) (y (aabb_max box)) (y (origin ray)) (y (inv_dir ray))))
       (slab (z (aabb_min box)) (z (aabb_max box)) (z (origin ray)) (z (inv_dir ray))))
       (tmin ray, tmax ray)"

definition empty_interval :: "f32 \<times> f32 \<Rightarrow> bool" where
  "empty_interval t \<longleftrightarrow> flt (snd t) (fst t)"

text \<open>A parameter \<open>t\<close> lies in the closed interval \<open>[fst i, snd i]\<close>.\<close>

definition in_interval :: "f32 \<times> f32 \<Rightarrow> f32 \<Rightarrow> bool" where
  "in_interval i t \<longleftrightarrow> fle (fst i) t \<and> fle t (snd i)"

section \<open>Occupancy lookup\<close>




definition inside :: "f32 AABBSpec \<Rightarrow> float3 \<Rightarrow> bool" where
  "inside box p \<longleftrightarrow>
     fle (x (aabb_min box)) (x p) \<and> fle (x p) (x (aabb_max box)) \<and>
     fle (y (aabb_min box)) (y p) \<and> fle (y p) (y (aabb_max box)) \<and>
     fle (z (aabb_min box)) (z p) \<and> fle (z p) (z (aabb_max box))"






section \<open>Notions the statements use\<close>

text \<open>
  The pointer a tensor is exposed through: null when the tensor is undefined, its buffer
  when it is defined.
\<close>

abbreviation view_of :: "'a Tensor \<Rightarrow> 'a ptr" where
  "view_of t \<equiv> (case t of None \<Rightarrow> nullptr | Some i \<Rightarrow> Ptr (storage i))"

text \<open>
  A tensor that is undefined or has at least one dimension. On a zero-dimensional
  tensor \<^verbatim>\<open>size(0)\<close> and \<^verbatim>\<open>size(-1)\<close> throw.
\<close>

definition not_scalar :: "'a Tensor \<Rightarrow> bool" where
  "not_scalar t = (case t of None \<Rightarrow> True | Some i \<Rightarrow> sizes i \<noteq> [])"

text \<open>
  The view of ray \<open>i\<close> over the buffers \<open>os\<close> (origins) and \<open>ds\<close> (directions), with the
  window \<open>[t0, t1]\<close>.
\<close>

abbreviation ray_at :: "f32 list \<Rightarrow> f32 list \<Rightarrow> nat \<Rightarrow> f32 \<Rightarrow> f32 \<Rightarrow> SingleRaySpec" where
  "ray_at os ds i t0 t1 \<equiv>
     \<lparr>origin = \<lparr>x = os ! (3 * i), y = os ! (3 * i + 1), z = os ! (3 * i + 2)\<rparr>,
      dir = \<lparr>x = ds ! (3 * i), y = ds ! (3 * i + 1), z = ds ! (3 * i + 2)\<rparr>,
      inv_dir = \<lparr>x = fdiv one (ds ! (3 * i)), y = fdiv one (ds ! (3 * i + 1)),
                 z = fdiv one (ds ! (3 * i + 2))\<rparr>,
      tmin = t0, tmax = t1\<rparr>"

text \<open>No candidate of the three axes, and neither end of the window, is a NaN.\<close>

definition no_nan :: "SingleRaySpec \<Rightarrow> f32 AABBSpec \<Rightarrow> bool" where
  "no_nan ray box \<longleftrightarrow>
     \<not> is_nan (candidate (x (aabb_min box)) (x (origin ray)) (x (inv_dir ray))) \<and>
     \<not> is_nan (candidate (x (aabb_max box)) (x (origin ray)) (x (inv_dir ray))) \<and>
     \<not> is_nan (candidate (y (aabb_min box)) (y (origin ray)) (y (inv_dir ray))) \<and>
     \<not> is_nan (candidate (y (aabb_max box)) (y (origin ray)) (y (inv_dir ray))) \<and>
     \<not> is_nan (candidate (z (aabb_min box)) (z (origin ray)) (z (inv_dir ray))) \<and>
     \<not> is_nan (candidate (z (aabb_max box)) (z (origin ray)) (z (inv_dir ray))) \<and>
     \<not> is_nan (tmin ray) \<and> \<not> is_nan (tmax ray)"


section \<open>Example inputs\<close>

subsection \<open>Ray segments\<close>

definition undefined_segments :: "f32 RaySegmentsSpec" where
  "undefined_segments =
     \<lparr>spec_edges = None, spec_is_left = None, spec_is_right = None,
      spec_chunk_starts = None, spec_chunk_cnts = None, spec_ray_ids = None\<rparr>"

text \<open>Two rays of three edges each, batched; nothing else provided.\<close>

definition batched_2x3 :: "f32 RaySegmentsSpec" where
  "batched_2x3 = undefined_segments
     \<lparr>spec_edges := Some \<lparr>sizes = [2, 3],
        storage = [Fin 1, Fin 2, Fin 3, Fin 1, Fin 4, Fin 5]\<rparr>\<rparr>"

text \<open>Four edges in two chunks, flattened, with and without \<open>chunk_cnts\<close>.\<close>

definition flat_4 :: "f32 RaySegmentsSpec" where
  "flat_4 = undefined_segments
     \<lparr>spec_edges := Some \<lparr>sizes = [4], storage = [Fin 1, Fin 2, Fin 1, Fin 3]\<rparr>,
      spec_chunk_cnts := Some \<lparr>sizes = [2], storage = [2, 2]\<rparr>\<rparr>"

definition flat_4_no_counts :: "f32 RaySegmentsSpec" where
  "flat_4_no_counts = flat_4 \<lparr>spec_chunk_cnts := None\<rparr>"

text \<open>\<open>2^31\<close> rays without a single edge, and \<open>2^31\<close> edges of one ray.\<close>

definition many_rays :: "f32 RaySegmentsSpec" where
  "many_rays = undefined_segments
     \<lparr>spec_edges := Some \<lparr>sizes = [0], storage = []\<rparr>,
      spec_chunk_cnts := Some \<lparr>sizes = [2147483648], storage = replicate 2147483648 0\<rparr>\<rparr>"

definition many_edges :: "f32 RaySegmentsSpec" where
  "many_edges = undefined_segments
     \<lparr>spec_edges := Some \<lparr>sizes = [2147483648], storage = replicate 2147483648 (Zero False)\<rparr>,
      spec_chunk_cnts := Some \<lparr>sizes = [1], storage = [2147483648]\<rparr>\<rparr>"

text \<open>One ray of \<open>2^31\<close> edges, batched.\<close>

definition batched_1_wide :: "f32 RaySegmentsSpec" where
  "batched_1_wide = undefined_segments
     \<lparr>spec_edges := Some \<lparr>sizes = [1, 2147483648],
        storage = replicate 2147483648 (Zero False)\<rparr>\<rparr>"

subsection \<open>Rays\<close>

text \<open>
  Two rays, the second with direction \<open>(-1, +0, -0)\<close>; and 715827883 rays, the least
  number for which \<open>3 i + 2\<close> reaches \<open>2^31\<close> at the last index.
\<close>

definition two_rays :: "f32 RaysSpec" where
  "two_rays =
     \<lparr>spec_origins = Some \<lparr>sizes = [2, 3],
        storage = [Zero False, Zero False, Zero False, Fin 1, Fin 2, Fin 3]\<rparr>,
      spec_dirs = Some \<lparr>sizes = [2, 3],
        storage = [Fin 1, Fin 2, Fin 4, Fin (- 1), Zero False, Zero True]\<rparr>\<rparr>"

definition rays_715827883 :: "f32 RaysSpec" where
  "rays_715827883 =
     \<lparr>spec_origins = Some \<lparr>sizes = [715827883, 3], storage = replicate 2147483649 (Fin 1)\<rparr>,
      spec_dirs = Some \<lparr>sizes = [715827883, 3], storage = replicate 2147483649 (Fin 1)\<rparr>\<rparr>"

subsection \<open>Grids\<close>

text \<open>Two levels of \<open>2 x 2 x 2\<close> voxels; and one level with \<open>2^31\<close> voxels along \<open>x\<close>.\<close>

definition small_grid :: "f32 MultiScaleGridSpec" where
  "small_grid =
     \<lparr>spec_data = Some \<lparr>sizes = [2, 2, 2, 2], storage = replicate 16 (Fin 1)\<rparr>,
      spec_occupied = Some \<lparr>sizes = [2, 2, 2, 2], storage = replicate 16 True\<rparr>,
      spec_base_aabb = Some \<lparr>sizes = [6],
        storage = [Fin (- 1), Fin (- 1), Fin (- 1), Fin 1, Fin 1, Fin 1]\<rparr>\<rparr>"

definition wide_grid :: "f32 MultiScaleGridSpec" where
  "wide_grid =
     \<lparr>spec_data = Some \<lparr>sizes = [1, 2147483648, 1, 1],
        storage = replicate 2147483648 (Fin 1)\<rparr>,
      spec_occupied = Some \<lparr>sizes = [1, 2147483648, 1, 1],
        storage = replicate 2147483648 True\<rparr>,
      spec_base_aabb = Some \<lparr>sizes = [6],
        storage = [Fin (- 1), Fin (- 1), Fin (- 1), Fin 1, Fin 1, Fin 1]\<rparr>\<rparr>"

subsection \<open>Rays against a box\<close>

text \<open>
  The ray from the origin along \<open>x\<close> with the window \<open>[0, 10]\<close>, the box from
  \<open>(2, -1, -1)\<close> to \<open>(5, 1, 1)\<close>, and a ray along \<open>y\<close> that starts on the plane \<open>x = 2\<close>
  of that box. Each ray is given as a buffer of one ray and as the view the per-ray
  constructor builds from it.
\<close>

definition unit_x_rays :: "(f32, int32_t) PackedRaysSpec" where
  "unit_x_rays =
     \<lparr>origins = Ptr [Zero False, Zero False, Zero False],
      dirs = Ptr [Fin 1, Zero False, Zero False], N = 1\<rparr>"

definition ray_along_x :: SingleRaySpec where
  "ray_along_x =
     \<lparr>origin = \<lparr>x = Zero False, y = Zero False, z = Zero False\<rparr>,
      dir = \<lparr>x = Fin 1, y = Zero False, z = Zero False\<rparr>,
      inv_dir = \<lparr>x = Fin 1, y = Inf False, z = Inf False\<rparr>,
      tmin = Zero False, tmax = Fin 10\<rparr>"

definition box_2_5 :: "f32 AABBSpec" where
  "box_2_5 =
     \<lparr>aabb_min = \<lparr>x = Fin 2, y = Fin (- 1), z = Fin (- 1)\<rparr>,
      aabb_max = \<lparr>x = Fin 5, y = Fin 1, z = Fin 1\<rparr>\<rparr>"

definition rays_on_plane :: "(f32, int32_t) PackedRaysSpec" where
  "rays_on_plane =
     \<lparr>origins = Ptr [Fin 2, Zero False, Zero False],
      dirs = Ptr [Zero False, Fin 1, Zero False], N = 1\<rparr>"

definition ray_on_plane :: SingleRaySpec where
  "ray_on_plane =
     \<lparr>origin = \<lparr>x = Fin 2, y = Zero False, z = Zero False\<rparr>,
      dir = \<lparr>x = Zero False, y = Fin 1, z = Zero False\<rparr>,
      inv_dir = \<lparr>x = Inf False, y = Fin 1, z = Inf False\<rparr>,
      tmin = Zero False, tmax = Fin 10\<rparr>"

subsection \<open>Boxes and a grid view for the lookup\<close>




section \<open>Auxiliary facts\<close>

subsection \<open>Errors and machine integers\<close>

lemma ebind_Inr [simp]: "ebind (Inr v) f = f v"
  by (simp add: ebind_def)

lemma ebind_Inl [simp]: "ebind (Inl e) f = Inl e"
  by (simp add: ebind_def)

lemma ebind_fails [simp]: "ebind m (\<lambda>a. Inl e) \<noteq> Inr v"
  by (cases m) simp_all

lemma sint_of_nat_word:
  assumes "n < 2 ^ (LENGTH('w::len) - 1)"
  shows "sint (of_nat n :: 'w word) = int n"
proof -
  have "int n < 2 ^ (LENGTH('w) - 1)"
    using assms by (metis of_nat_less_iff of_nat_numeral of_nat_power)
  moreover have "- (2 ^ (LENGTH('w) - 1)) \<le> int n"
    by (rule order_trans [of _ 0]) simp_all
  ultimately have "signed_take_bit (LENGTH('w) - 1) (int n) = int n"
    by (rule signed_take_bit_int_eq_self [rotated])
  then show ?thesis
    by (simp add: signed_of_nat)
qed

lemma sint_of_nat_64: "n < 2 ^ 63 \<Longrightarrow> sint (of_nat n :: int64_t) = int n"
  using sint_of_nat_word [where 'w = 64, of n] by simp

lemma sint_of_nat_32: "n < 2 ^ 31 \<Longrightarrow> sint (of_nat n :: int32_t) = int n"
  using sint_of_nat_word [where 'w = 32, of n] by simp

lemma narrow32_of_nat: "narrow32 (of_nat n) = of_nat n"
proof -
  have d: "is_down (ucast :: int64_t \<Rightarrow> int32_t)"
    by (simp add: is_down)
  have "narrow32 (of_nat n) = (ucast (word_of_int (int n) :: int64_t) :: int32_t)"
    unfolding narrow32_def using down_cast_same [OF d] by simp
  also have "\<dots> = word_of_int (int n)"
    by (rule ucast_down_wi [OF d])
  finally show ?thesis by simp
qed

lemma sint_narrow32:
  assumes "- (2 ^ 31) \<le> sint w" and "sint w < 2 ^ 31"
  shows "sint (narrow32 w) = sint w"
proof -
  have "signed_take_bit 31 (sint w) = sint w"
    using assms by (simp only: signed_take_bit_int_eq_self_iff)
  then show ?thesis
    by (simp add: narrow32_def signed_scast_eq)
qed

subsection \<open>The segment constructors\<close>

lemma ptr_or_null_eq [simp]: "ptr_or_null t = Inr (view_of t)"
  by (simp add: ptr_or_null_def defined_def data_ptr_def split: option.splits)

lemma size_at_first:
  "sizes i \<noteq> [] \<Longrightarrow> size_at (Some i) 0 = Inr (of_nat (hd (sizes i)))"
  by (simp add: size_at_def hd_conv_nth)

lemma size_at_last:
  "sizes i \<noteq> [] \<Longrightarrow> size_at (Some i) (- 1) = Inr (of_nat (last (sizes i)))"
  by (cases "sizes i" rule: rev_cases) (simp_all add: size_at_def nat_add_distrib nth_append)

lemma size_at_scalar: "sizes i = [] \<Longrightarrow> size_at (Some i) d = Inl Torch_Error"
  by (simp add: size_at_def Let_def)

text \<open>The view the batched-capable constructor builds, when it builds one.\<close>

lemma PackedRaySegmentsSpec_Inr:
  assumes "not_scalar (spec_edges spec)" and "not_scalar (spec_chunk_cnts spec)"
  shows "PackedRaySegmentsSpec spec =
    Inr \<lparr>edges = view_of (spec_edges spec),
         is_batched = (case spec_edges spec of None \<Rightarrow> False | Some t \<Rightarrow> 1 < length (sizes t)),
         chunk_starts = view_of (spec_chunk_starts spec),
         chunk_cnts = view_of (spec_chunk_cnts spec),
         ray_ids = view_of (spec_ray_ids spec),
         is_left = view_of (spec_is_left spec),
         is_right = view_of (spec_is_right spec),
         n_edges = (case spec_edges spec of None \<Rightarrow> 0 | Some t \<Rightarrow> of_nat (prod_list (sizes t))),
         n_rays = (case spec_chunk_cnts spec of None \<Rightarrow> 0 | Some c \<Rightarrow> of_nat (hd (sizes c))),
         n_edges_per_ray = (case spec_edges spec of None \<Rightarrow> 0 | Some t \<Rightarrow> of_nat (last (sizes t)))\<rparr>"
  using assms
  by (cases "spec_edges spec"; cases "spec_chunk_cnts spec")
    (simp_all add: PackedRaySegmentsSpec_def not_scalar_def defined_def dim_def numel_def
      size_at_first size_at_last narrow32_of_nat narrow32_def [of 0])

lemma PackedRaySegmentsSpec0_Inr:
  assumes "spec_chunk_cnts spec = Some c" and "sizes c \<noteq> []"
  shows "PackedRaySegmentsSpec0 spec =
    Inr \<lparr>edges0 = view_of (spec_edges spec),
         is_left0 = view_of (spec_is_left spec),
         is_right0 = view_of (spec_is_right spec),
         chunk_starts0 = view_of (spec_chunk_starts spec),
         chunk_cnts0 = Ptr (storage c),
         ray_ids0 = view_of (spec_ray_ids spec),
         n_edges0 = (case spec_edges spec of None \<Rightarrow> 0 | Some t \<Rightarrow> of_nat (prod_list (sizes t))),
         n_rays0 = of_nat (hd (sizes c))\<rparr>"
  using assms
  by (cases "spec_edges spec")
    (simp_all add: PackedRaySegmentsSpec0_def defined_def numel_def data_ptr_def size_at_first)

lemma PackedRaySegmentsSpec0_undefined:
  assumes "spec_chunk_cnts spec = None"
  shows "PackedRaySegmentsSpec0 spec = Inl Torch_Error"
  using assms by (simp add: PackedRaySegmentsSpec0_def data_ptr_def)

lemma size_at_cases: "(\<exists>n. size_at t d = Inr n) \<or> size_at t d = Inl Torch_Error"
  by (cases t) (simp_all add: size_at_def Let_def)

lemma ebind_size_at_fails [simp]:
  "ebind (size_at t d) (\<lambda>a. Inl Torch_Error) = Inl Torch_Error"
  using size_at_cases [of t d] by auto

lemma PackedRaySegmentsSpec_Inl:
  assumes "\<not> (not_scalar (spec_edges spec) \<and> not_scalar (spec_chunk_cnts spec))"
  shows "PackedRaySegmentsSpec spec = Inl Torch_Error"
  using assms
  by (cases "spec_edges spec"; cases "spec_chunk_cnts spec")
    (auto simp add: PackedRaySegmentsSpec_def not_scalar_def defined_def dim_def numel_def
      size_at_scalar size_at_first)

lemma PackedRaySegmentsSpec0_Inl:
  assumes "\<not> (defined (spec_chunk_cnts spec) \<and> not_scalar (spec_chunk_cnts spec))"
  shows "PackedRaySegmentsSpec0 spec = Inl Torch_Error"
  using assms
  by (cases "spec_edges spec"; cases "spec_chunk_cnts spec")
    (auto simp add: PackedRaySegmentsSpec0_def not_scalar_def defined_def numel_def data_ptr_def
      size_at_scalar)

text \<open>The outcome of either constructor is an error or a view whatever the optional tensors are.\<close>

lemma optional_fields_irrelevant:
  fixes spec :: "'f RaySegmentsSpec" and a b c d
  defines "spec' \<equiv> spec\<lparr>spec_is_left := a, spec_is_right := b, spec_chunk_starts := c,
      spec_ray_ids := d\<rparr>"
  shows "PackedRaySegmentsSpec spec = Inl e \<Longrightarrow> PackedRaySegmentsSpec spec' = Inl e"
    and "PackedRaySegmentsSpec0 spec = Inl e \<Longrightarrow> PackedRaySegmentsSpec0 spec' = Inl e"
proof -
  assume f: "PackedRaySegmentsSpec spec = Inl e"
  then have n: "\<not> (not_scalar (spec_edges spec) \<and> not_scalar (spec_chunk_cnts spec))"
    using PackedRaySegmentsSpec_Inr [of spec] by auto
  then have "e = Torch_Error"
    using f PackedRaySegmentsSpec_Inl [of spec] by simp
  moreover have "PackedRaySegmentsSpec spec' = Inl Torch_Error"
    using n by (intro PackedRaySegmentsSpec_Inl) (simp add: spec'_def)
  ultimately show "PackedRaySegmentsSpec spec' = Inl e"
    by simp
next
  assume f: "PackedRaySegmentsSpec0 spec = Inl e"
  have n: "\<not> (defined (spec_chunk_cnts spec) \<and> not_scalar (spec_chunk_cnts spec))"
  proof
    assume "defined (spec_chunk_cnts spec) \<and> not_scalar (spec_chunk_cnts spec)"
    then obtain k where "spec_chunk_cnts spec = Some k" and "sizes k \<noteq> []"
      by (auto simp add: defined_def not_scalar_def)
    then show False
      using f PackedRaySegmentsSpec0_Inr [of spec k] by simp
  qed
  then have "e = Torch_Error"
    using f PackedRaySegmentsSpec0_Inl [of spec] by simp
  moreover have "PackedRaySegmentsSpec0 spec' = Inl Torch_Error"
    using n by (intro PackedRaySegmentsSpec0_Inl) (simp add: spec'_def)
  ultimately show "PackedRaySegmentsSpec0 spec' = Inl e"
    by simp
qed

lemma PackedRaySegmentsSpec0_accepts:
  assumes "PackedRaySegmentsSpec0 spec = Inr v0"
  obtains c where "spec_chunk_cnts spec = Some c" and "sizes c \<noteq> []"
proof (cases "spec_chunk_cnts spec")
  case None
  then show ?thesis
    using assms by (simp add: PackedRaySegmentsSpec0_undefined)
next
  case (Some c)
  have "sizes c \<noteq> []"
  proof
    assume "sizes c = []"
    with assms Some show False
      by (simp add: PackedRaySegmentsSpec0_def data_ptr_def size_at_scalar)
  qed
  with Some show ?thesis by (rule that)
qed


text \<open>The example collections, to unfold when one is evaluated.\<close>

lemmas examples =
  undefined_segments_def batched_2x3_def flat_4_def flat_4_no_counts_def many_rays_def
  many_edges_def batched_1_wide_def

subsection \<open>Reading a ray\<close>

lemma sint_of_nat_le: "sint (of_nat n :: 'w::len word) \<le> int n"
proof -
  have "- (2 ^ (LENGTH('w) - 1)) \<le> int n"
    by (rule order_trans [of _ 0]) simp_all
  then have "signed_take_bit (LENGTH('w) - 1) (int n) \<le> int n"
    by (simp only: signed_take_bit_int_less_eq_self_iff)
  then show ?thesis
    by (simp add: signed_of_nat)
qed

lemma load_Ptr: "0 \<le> j \<Longrightarrow> j < int (length xs) \<Longrightarrow> load (Ptr xs) j = Inr (xs ! nat j)"
  by (simp add: load_def)

lemma smul_Inr:
  assumes "- (2 ^ (LENGTH('w) - 1)) \<le> sint a * sint b"
    and "sint a * sint b < 2 ^ (LENGTH('w) - 1)"
  shows "smul a b = Inr (a * b)" and "sint (a * b) = sint a * sint (b :: 'w::len word)"
proof -
  show "smul a b = Inr (a * b)"
    using assms by (simp add: smul_def in_range_def)
  have "signed_take_bit (LENGTH('w) - 1) (sint a * sint b) = sint a * sint b"
    using assms by (simp only: signed_take_bit_int_eq_self_iff)
  then show "sint (a * b) = sint a * sint b"
    by (simp only: sint_word_mult)
qed

lemma sadd_Inr:
  assumes "- (2 ^ (LENGTH('w) - 1)) \<le> sint a + sint b"
    and "sint a + sint b < 2 ^ (LENGTH('w) - 1)"
  shows "sadd a b = Inr (a + b)" and "sint (a + b) = sint a + sint (b :: 'w::len word)"
proof -
  show "sadd a b = Inr (a + b)"
    using assms by (simp add: sadd_def in_range_def)
  have "signed_take_bit (LENGTH('w) - 1) (sint a + sint b) = sint a + sint b"
    using assms by (simp only: signed_take_bit_int_eq_self_iff)
  then show "sint (a + b) = sint a + sint b"
    by (simp only: sint_word_add)
qed

text \<open>
  The read \<^verbatim>\<open>p[id * 3 + k]\<close> for a constant \<open>k\<close> whose value is \<open>m\<close>, on an index for
  which nothing overflows and which stays inside the buffer.
\<close>

lemma elem_Inr:
  fixes i k :: "'w::len word"
  assumes three: "sint (3 :: 'w word) = 3" and k: "sint k = int m"
    and i: "0 \<le> sint i"
    and fits: "3 * sint i + int m < 2 ^ (LENGTH('w) - 1)"
    and inside: "3 * nat (sint i) + m < length xs"
  shows "elem (Ptr xs) i k = Inr (xs ! (3 * nat (sint i) + m))"
proof -
  have neg: "- (2 ^ (LENGTH('w) - 1)) \<le> (0 :: int)"
    by simp
  have "0 \<le> sint i * sint (3 :: 'w word)"
    using i three by simp
  with neg have lo: "- (2 ^ (LENGTH('w) - 1)) \<le> sint i * sint (3 :: 'w word)"
    by (rule order_trans)
  have hi: "sint i * sint (3 :: 'w word) < 2 ^ (LENGTH('w) - 1)"
    using fits three by simp
  note m = smul_Inr [OF lo hi]
  have "0 \<le> sint (i * 3) + sint k"
    using i three k m(2) by simp
  with neg have lo': "- (2 ^ (LENGTH('w) - 1)) \<le> sint (i * 3) + sint k"
    by (rule order_trans)
  have hi': "sint (i * 3) + sint k < 2 ^ (LENGTH('w) - 1)"
    using fits three k m(2) by (simp add: mult.commute)
  note a = sadd_Inr [OF lo' hi']
  have j: "sint (i * 3 + k) = int (3 * nat (sint i) + m)"
    using a(2) m(2) three k i by simp
  show ?thesis
    unfolding elem_def using m(1) a(1) inside by (simp add: load_Ptr j del: of_nat_add of_nat_mult)
qed

lemma elem0_Inr:
  fixes i :: "'w::len word"
  assumes three: "sint (3 :: 'w word) = 3"
    and i: "0 \<le> sint i"
    and fits: "3 * sint i < 2 ^ (LENGTH('w) - 1)"
    and inside: "3 * nat (sint i) < length xs"
  shows "elem0 (Ptr xs) i = Inr (xs ! (3 * nat (sint i)))"
proof -
  have neg: "- (2 ^ (LENGTH('w) - 1)) \<le> (0 :: int)"
    by simp
  have "0 \<le> sint i * sint (3 :: 'w word)"
    using i three by simp
  with neg have lo: "- (2 ^ (LENGTH('w) - 1)) \<le> sint i * sint (3 :: 'w word)"
    by (rule order_trans)
  have hi: "sint i * sint (3 :: 'w word) < 2 ^ (LENGTH('w) - 1)"
    using fits three by simp
  note m = smul_Inr [OF lo hi]
  have j: "sint (i * 3) = int (3 * nat (sint i))"
    using m(2) three i by simp
  show ?thesis
    unfolding elem0_def using m(1) inside by (simp add: load_Ptr j del: of_nat_mult)
qed

lemma SingleRaySpec_Inr:
  fixes i :: "'w::len word"
  assumes nums: "sint (3 :: 'w word) = 3" "sint (2 :: 'w word) = 2" "sint (1 :: 'w word) = 1"
    and ptrs: "origins rays = Ptr os" "dirs rays = Ptr ds"
    and i: "0 \<le> sint i"
    and fits: "3 * sint i + 2 < 2 ^ (LENGTH('w) - 1)"
    and inside: "3 * nat (sint i) + 2 < length os" "3 * nat (sint i) + 2 < length ds"
  shows "SingleRaySpec rays i t0 t1 =
    Inr \<lparr>origin = \<lparr>x = os ! (3 * nat (sint i)), y = os ! (3 * nat (sint i) + 1),
                    z = os ! (3 * nat (sint i) + 2)\<rparr>,
         dir = \<lparr>x = ds ! (3 * nat (sint i)), y = ds ! (3 * nat (sint i) + 1),
                 z = ds ! (3 * nat (sint i) + 2)\<rparr>,
         inv_dir = \<lparr>x = fdiv one (ds ! (3 * nat (sint i))),
                     y = fdiv one (ds ! (3 * nat (sint i) + 1)),
                     z = fdiv one (ds ! (3 * nat (sint i) + 2))\<rparr>,
         tmin = t0, tmax = t1\<rparr>"
proof -
  have o0: "elem0 (Ptr os) i = Inr (os ! (3 * nat (sint i)))"
    using nums(1) i fits inside(1) by (simp add: elem0_Inr)
  have o1: "elem (Ptr os) i 1 = Inr (os ! (3 * nat (sint i) + 1))"
    using nums i fits inside(1) by (simp add: elem_Inr [where m = 1])
  have o2: "elem (Ptr os) i 2 = Inr (os ! (3 * nat (sint i) + 2))"
    using nums i fits inside(1) by (simp add: elem_Inr [where m = 2])
  have d0: "elem0 (Ptr ds) i = Inr (ds ! (3 * nat (sint i)))"
    using nums(1) i fits inside(2) by (simp add: elem0_Inr)
  have d1: "elem (Ptr ds) i 1 = Inr (ds ! (3 * nat (sint i) + 1))"
    using nums i fits inside(2) by (simp add: elem_Inr [where m = 1])
  have d2: "elem (Ptr ds) i 2 = Inr (ds ! (3 * nat (sint i) + 2))"
    using nums i fits inside(2) by (simp add: elem_Inr [where m = 2])
  show ?thesis
    by (simp add: SingleRaySpec_def ptrs o0 o1 o2 d0 d1 d2)
qed

lemma PackedRaysSpec_Inr:
  assumes "spec_origins spec = Some os" and "sizes os = n # ns" and "spec_dirs spec = Some ds"
  shows "PackedRaysSpec spec = Inr \<lparr>origins = Ptr (storage os), dirs = Ptr (storage ds), N = of_nat n\<rparr>"
    and "PackedRaysSpec0 spec = Inr \<lparr>origins = Ptr (storage os), dirs = Ptr (storage ds), N = of_nat n\<rparr>"
  using assms
  by (simp_all add: PackedRaysSpec_def PackedRaysSpec0_def data_ptr_def narrow32_of_nat
      size_at_first)

subsection \<open>The grid constructors\<close>

lemma size_at_4:
  assumes "sizes d = [l, nx, ny, nz]"
  shows "size_at (Some d) 0 = Inr (of_nat l)" and "size_at (Some d) 1 = Inr (of_nat nx)"
    and "size_at (Some d) 2 = Inr (of_nat ny)" and "size_at (Some d) 3 = Inr (of_nat nz)"
  using assms by (simp_all add: size_at_def)

lemma AABBSpec_Inr:
  "AABBSpec (Ptr [b0, b1, b2, b3, b4, b5]) =
     Inr \<lparr>aabb_min = \<lparr>x = b0, y = b1, z = b2\<rparr>, aabb_max = \<lparr>x = b3, y = b4, z = b5\<rparr>\<rparr>"
  by (simp add: AABBSpec_def load_def)

subsection \<open>The order on floats, and intervals\<close>

lemma fle_cases: "\<not> is_nan a \<Longrightarrow> \<not> is_nan b \<Longrightarrow> \<not> fle a b \<Longrightarrow> flt b a"
  by (auto simp add: fle_def flt_def rank_def split: if_splits)

lemma flt_cases: "\<not> is_nan a \<Longrightarrow> \<not> is_nan b \<Longrightarrow> \<not> flt a b \<Longrightarrow> fle b a"
  by (auto simp add: fle_def flt_def rank_def split: if_splits)

lemma flt_fle: "flt a b \<Longrightarrow> fle a b"
  by (auto simp add: fle_def flt_def rank_def split: if_splits)

lemma flt_not_fle: "flt a b \<Longrightarrow> \<not> fle b a"
  by (auto simp add: fle_def flt_def rank_def split: if_splits)

lemma fle_trans: "fle a b \<Longrightarrow> fle b c \<Longrightarrow> fle a c"
  by (auto simp add: fle_def rank_def split: if_splits)

lemma fle_refl: "\<not> is_nan a \<Longrightarrow> fle a a"
  by (simp add: fle_def)

lemma fle_not_nan: "fle a b \<Longrightarrow> \<not> is_nan a \<and> \<not> is_nan b"
  by (simp add: fle_def)

lemma slab_ordered:
  assumes "\<not> is_nan (candidate lo org idir)" and "\<not> is_nan (candidate hi org idir)"
  shows "fle (fst (slab lo hi org idir)) (snd (slab lo hi org idir))"
  using assms by (auto simp add: slab_def Let_def dest: fle_cases flt_fle)

lemma slab_ends:
  assumes "\<not> is_nan (candidate lo org idir)" and "\<not> is_nan (candidate hi org idir)"
  shows "\<not> is_nan (fst (slab lo hi org idir))" and "\<not> is_nan (snd (slab lo hi org idir))"
  using assms by (simp_all add: slab_def Let_def)

lemma clip_ends:
  assumes "\<not> is_nan (fst a)" and "\<not> is_nan (snd a)" and "\<not> is_nan (fst b)" and "\<not> is_nan (snd b)"
  shows "\<not> is_nan (fst (clip a b))" and "\<not> is_nan (snd (clip a b))"
  using assms by (simp_all add: clip_def)

lemma clip_in_interval:
  assumes "\<not> is_nan (fst a)" and "\<not> is_nan (snd a)" and "\<not> is_nan (fst b)" and "\<not> is_nan (snd b)"
  shows "in_interval (clip a b) t \<longleftrightarrow> in_interval a t \<and> in_interval b t"
proof (cases "is_nan t")
  case True
  then show ?thesis
    by (simp add: in_interval_def fle_def)
next
  case False
  have lower: "fle (fst (clip a b)) t \<longleftrightarrow> fle (fst a) t \<and> fle (fst b) t"
  proof (cases "flt (fst a) (fst b)")
    case True
    then show ?thesis
      by (auto simp add: clip_def intro: fle_trans flt_fle)
  next
    case no: False
    then have "fle (fst b) (fst a)"
      using assms by (simp add: flt_cases)
    with no show ?thesis
      by (auto simp add: clip_def intro: fle_trans)
  qed
  have upper: "fle t (snd (clip a b)) \<longleftrightarrow> fle t (snd a) \<and> fle t (snd b)"
  proof (cases "flt (snd b) (snd a)")
    case True
    then show ?thesis
      by (auto simp add: clip_def intro: fle_trans flt_fle)
  next
    case no: False
    then have "fle (snd a) (snd b)"
      using assms by (simp add: flt_cases)
    with no show ?thesis
      by (auto simp add: clip_def intro: fle_trans)
  qed
  show ?thesis
    unfolding in_interval_def lower upper by blast
qed

lemma empty_interval_iff:
  assumes "\<not> is_nan (fst i)" and "\<not> is_nan (snd i)"
  shows "empty_interval i \<longleftrightarrow> (\<forall>t. \<not> in_interval i t)"
proof
  assume "empty_interval i"
  then have "\<not> fle (fst i) (snd i)"
    by (simp add: empty_interval_def flt_not_fle)
  then show "\<forall>t. \<not> in_interval i t"
    by (auto simp add: in_interval_def dest: fle_trans)
next
  assume none: "\<forall>t. \<not> in_interval i t"
  have "\<not> fle (fst i) (snd i)"
  proof
    assume "fle (fst i) (snd i)"
    then have "in_interval i (snd i)"
      using assms by (simp add: in_interval_def fle_refl)
    with none show False by blast
  qed
  then show "empty_interval i"
    using assms by (simp add: empty_interval_def fle_cases)
qed

text \<open>The definitions to unfold when a float expression is evaluated.\<close>

lemmas float_ops =
  candidate_def slab_def clip_def fsub_def fadd_def fmul_def fdiv_def fle_def flt_def
  rank_def fin_def one_def

subsection \<open>Finite float arithmetic\<close>



lemma fin_finite [simp]: "is_finite (fin s q)" "rat_of (fin s q) = q"
  by (simp_all add: fin_def is_finite_def)










lemma Fin_finite [simp]: "is_finite (Fin q)" "is_finite (Zero s)"
  by (simp_all add: is_finite_def)




section \<open>Rays: the claim\<close>

text \<open>
  Claim C1, as stated, fails in \<^verbatim>\<open>data_spec_packed.cuh\<close>, where the ray index is an
  \<^verbatim>\<open>int32_t\<close>: for a buffer of 715827883 rays and the last index, 715827882, the
  product \<open>id * 3\<close> still fits, but \<open>id * 3 + 2 = 2^31\<close> overflows, and the
  constructor has no defined result.
\<close>

theorem ray_view_counterexample:
  "tensor_ok \<lparr>sizes = [715827883, 3], storage = replicate 2147483649 (Fin 1)\<rparr> \<and>
   PackedRaysSpec rays_715827883 =
     Inr \<lparr>origins = Ptr (replicate 2147483649 (Fin 1)),
          dirs = Ptr (replicate 2147483649 (Fin 1)), N = 715827883\<rparr> \<and>
   0 \<le> sint (715827882 :: int32_t) \<and> sint (715827882 :: int32_t) < sint (715827883 :: int32_t) \<and>
   SingleRaySpec
     \<lparr>origins = Ptr (replicate 2147483649 (Fin 1)),
      dirs = Ptr (replicate 2147483649 (Fin 1)), N = 715827883 :: int32_t\<rparr>
     (715827882 :: int32_t) (Zero False) (Fin 10) = Inl Undefined_Behaviour"
  by (simp add: rays_715827883_def tensor_ok_def PackedRaysSpec_def data_ptr_def narrow32_def
      size_at_def SingleRaySpec_def elem0_def elem_def smul_def sadd_def in_range_def load_def)

text \<open>
  Claim C1, amended. Take a rays buffer of \<open>n\<close> rays: origins and directions of shape
  \<open>[n, 3]\<close>. In the earlier variant, for every index \<open>0 \<le> i < N\<close>, and in
  \<^verbatim>\<open>data_spec_packed.cuh\<close> for every such index with \<open>3 i + 2 < 2^31\<close>, the per-ray
  constructor returns the view with origin \<open>(origins[3i], origins[3i+1], origins[3i+2])\<close>,
  dir \<open>(dirs[3i], dirs[3i+1], dirs[3i+2])\<close>, inv_dir the three quotients \<open>1 / dir[k]\<close>, and
  the given \<open>tmin\<close> and \<open>tmax\<close>. The quotient is \<open>+\<infinity>\<close> for a direction component \<open>+0\<close>
  and \<open>-\<infinity>\<close> for \<open>-0\<close>.
\<close>

theorem ray_view:
  assumes "spec_origins spec = Some os" and "sizes os = [n, 3]" and "tensor_ok os"
    and "spec_dirs spec = Some ds" and "sizes ds = [n, 3]" and "tensor_ok ds"
  shows "(\<exists>r. PackedRaysSpec0 spec = Inr r \<and>
            (\<forall>i. 0 \<le> sint i \<and> sint i < sint (N r) \<longrightarrow>
               SingleRaySpec r i t0 t1 =
                 Inr (ray_at (storage os) (storage ds) (nat (sint i)) t0 t1))) \<and>
         (\<exists>r. PackedRaysSpec spec = Inr r \<and>
            (\<forall>i. 0 \<le> sint i \<and> sint i < sint (N r) \<and> 3 * sint i + 2 < 2 ^ 31 \<longrightarrow>
               SingleRaySpec r i t0 t1 =
                 Inr (ray_at (storage os) (storage ds) (nat (sint i)) t0 t1))) \<and>
         fdiv one (Zero False) = Inf False \<and> fdiv one (Zero True) = Inf True"
proof (intro conjI)
  have len: "length (storage os) = n * 3" "length (storage ds) = n * 3" and n3: "n * 3 < 2 ^ 63"
    using assms by (simp_all add: tensor_ok_def)
  then have n: "n < 2 ^ 63"
    by simp
  let ?r = "\<lparr>origins = Ptr (storage os), dirs = Ptr (storage ds), N = of_nat n :: int64_t\<rparr>"
  have "SingleRaySpec ?r i t0 t1 = Inr (ray_at (storage os) (storage ds) (nat (sint i)) t0 t1)"
    if "0 \<le> sint i \<and> sint i < sint (N ?r)" for i
  proof -
    have i: "0 \<le> sint i" and "sint i < int n"
      using that n by (simp_all add: sint_of_nat_64)
    then have lt: "nat (sint i) < n"
      by simp
    then have "3 * nat (sint i) + 2 < n * 3"
      by simp
    moreover from this n3 i have "3 * sint i + 2 < 2 ^ (LENGTH(64) - 1)"
      by simp
    ultimately show ?thesis
      using i len by (intro SingleRaySpec_Inr) simp_all
  qed
  then show "\<exists>r. PackedRaysSpec0 spec = Inr r \<and>
            (\<forall>i. 0 \<le> sint i \<and> sint i < sint (N r) \<longrightarrow>
               SingleRaySpec r i t0 t1 =
                 Inr (ray_at (storage os) (storage ds) (nat (sint i)) t0 t1))"
    using PackedRaysSpec_Inr(2) [OF assms(1,2,4)] by blast
  let ?s = "\<lparr>origins = Ptr (storage os), dirs = Ptr (storage ds), N = of_nat n :: int32_t\<rparr>"
  have "SingleRaySpec ?s i t0 t1 = Inr (ray_at (storage os) (storage ds) (nat (sint i)) t0 t1)"
    if "0 \<le> sint i \<and> sint i < sint (N ?s) \<and> 3 * sint i + 2 < 2 ^ 31" for i
  proof -
    have "sint (of_nat n :: int32_t) \<le> int n"
      by (rule sint_of_nat_le)
    then have i: "0 \<le> sint i" and "sint i < int n"
      using that by simp_all
    then have lt: "nat (sint i) < n"
      by simp
    then have "3 * nat (sint i) + 2 < n * 3"
      by simp
    moreover have "3 * sint i + 2 < 2 ^ (LENGTH(32) - 1)"
      using that by simp
    ultimately show ?thesis
      using i len by (intro SingleRaySpec_Inr) simp_all
  qed
  then show "\<exists>r. PackedRaysSpec spec = Inr r \<and>
            (\<forall>i. 0 \<le> sint i \<and> sint i < sint (N r) \<and> 3 * sint i + 2 < 2 ^ 31 \<longrightarrow>
               SingleRaySpec r i t0 t1 =
                 Inr (ray_at (storage os) (storage ds) (nat (sint i)) t0 t1))"
    using PackedRaysSpec_Inr(1) [OF assms(1,2,4)] by blast
  show "fdiv one (Zero False) = Inf False" and "fdiv one (Zero True) = Inf True"
    by (simp_all add: fdiv_def one_def)
qed

theorem ray_view_witness:
  "spec_origins two_rays =
     Some \<lparr>sizes = [2, 3], storage = [Zero False, Zero False, Zero False, Fin 1, Fin 2, Fin 3]\<rparr> \<and>
   tensor_ok \<lparr>sizes = [2, 3], storage = [Zero False, Zero False, Zero False, Fin 1, Fin 2, Fin 3]\<rparr> \<and>
   spec_dirs two_rays =
     Some \<lparr>sizes = [2, 3], storage = [Fin 1, Fin 2, Fin 4, Fin (- 1), Zero False, Zero True]\<rparr> \<and>
   tensor_ok \<lparr>sizes = [2, 3],
     storage = [Fin 1, Fin 2, Fin 4, Fin (- 1), Zero False, Zero True]\<rparr> \<and>
   0 \<le> sint (1 :: int64_t) \<and> sint (1 :: int64_t) < sint (2 :: int64_t) \<and>
   0 \<le> sint (1 :: int32_t) \<and> sint (1 :: int32_t) < sint (2 :: int32_t) \<and>
   3 * sint (1 :: int32_t) + 2 < 2 ^ 31 \<and>
   (\<exists>r. PackedRaysSpec0 two_rays = Inr r \<and> N r = 2 \<and>
      SingleRaySpec r 1 (Zero False) (Fin 10) =
        Inr \<lparr>origin = \<lparr>x = Fin 1, y = Fin 2, z = Fin 3\<rparr>,
             dir = \<lparr>x = Fin (- 1), y = Zero False, z = Zero True\<rparr>,
             inv_dir = \<lparr>x = Fin (- 1), y = Inf False, z = Inf True\<rparr>,
             tmin = Zero False, tmax = Fin 10\<rparr>) \<and>
   (\<exists>r. PackedRaysSpec two_rays = Inr r \<and> N r = 2 \<and>
      SingleRaySpec r 1 (Zero False) (Fin 10) =
        Inr \<lparr>origin = \<lparr>x = Fin 1, y = Fin 2, z = Fin 3\<rparr>,
             dir = \<lparr>x = Fin (- 1), y = Zero False, z = Zero True\<rparr>,
             inv_dir = \<lparr>x = Fin (- 1), y = Inf False, z = Inf True\<rparr>,
             tmin = Zero False, tmax = Fin 10\<rparr>)"
proof -
  let ?os = "\<lparr>sizes = [2, 3], storage = [Zero False, Zero False, Zero False, Fin 1, Fin 2, Fin 3]\<rparr>"
  let ?ds = "\<lparr>sizes = [2, 3],
    storage = [Fin 1, Fin 2, Fin 4, Fin (- 1), Zero False, Zero True]\<rparr>"
  have a: "spec_origins two_rays = Some ?os" and b: "sizes ?os = [2, 3]"
    and c: "tensor_ok ?os" and d: "spec_dirs two_rays = Some ?ds" and e: "sizes ?ds = [2, 3]"
    and f: "tensor_ok ?ds"
    by (simp_all add: two_rays_def tensor_ok_def)
  note v = ray_view [OF a b c d e f, where ?t0.0 = "Zero False" and ?t1.0 = "Fin 10"]
  have p0: "PackedRaysSpec0 two_rays =
      Inr \<lparr>origins = Ptr (storage ?os), dirs = Ptr (storage ?ds), N = 2\<rparr>"
    and p: "PackedRaysSpec two_rays =
      Inr \<lparr>origins = Ptr (storage ?os), dirs = Ptr (storage ?ds), N = 2\<rparr>"
    using PackedRaysSpec_Inr [OF a b d] by simp_all
  from v p0 have
    "SingleRaySpec \<lparr>origins = Ptr (storage ?os), dirs = Ptr (storage ?ds), N = 2 :: int64_t\<rparr>
        1 (Zero False) (Fin 10) = Inr (ray_at (storage ?os) (storage ?ds) 1 (Zero False) (Fin 10))"
    by auto
  moreover from v p have
    "SingleRaySpec \<lparr>origins = Ptr (storage ?os), dirs = Ptr (storage ?ds), N = 2 :: int32_t\<rparr>
        1 (Zero False) (Fin 10) = Inr (ray_at (storage ?os) (storage ?ds) 1 (Zero False) (Fin 10))"
    by auto
  ultimately show ?thesis
    using a c d f p0 p by (simp add: fdiv_def one_def fin_def)
qed

section \<open>Ray-box intersection: the claim\<close>

text \<open>
  Claim C2, as stated, fails: a candidate is a NaN when the origin lies on a slab plane
  of an axis along which the direction is zero (\<open>0 * \<infinity>\<close>), and a NaN is neither below
  nor above anything, so that pair has no order with entry \<open>\<le>\<close> exit. Here the ray
  starts at \<open>(2, 0, 0)\<close> with direction \<open>(0, 1, 0)\<close>, and the box has \<open>min.x = 2\<close>.
\<close>

theorem slab_intersection_counterexample:
  "SingleRaySpec rays_on_plane 0 (Zero False) (Fin 10) = Inr ray_on_plane \<and>
   candidate (x (aabb_min box_2_5)) (x (origin ray_on_plane)) (x (inv_dir ray_on_plane)) = NaN \<and>
   candidate (x (aabb_max box_2_5)) (x (origin ray_on_plane)) (x (inv_dir ray_on_plane))
     = Inf False \<and>
   \<not> fle NaN (Inf False) \<and> \<not> fle (Inf False) NaN \<and>
   slab (x (aabb_min box_2_5)) (x (aabb_max box_2_5)) (x (origin ray_on_plane))
     (x (inv_dir ray_on_plane)) = (Inf False, NaN) \<and>
   \<not> fle (fst (slab (x (aabb_min box_2_5)) (x (aabb_max box_2_5)) (x (origin ray_on_plane))
              (x (inv_dir ray_on_plane))))
          (snd (slab (x (aabb_min box_2_5)) (x (aabb_max box_2_5)) (x (origin ray_on_plane))
              (x (inv_dir ray_on_plane))))"
  by (simp add: rays_on_plane_def ray_on_plane_def box_2_5_def SingleRaySpec_def elem0_def
      elem_def smul_def sadd_def in_range_def load_def float_ops)

text \<open>
  Claim C2, amended. For every ray and box for which no candidate
  \<open>(min[k] - origin[k]) * inv_dir[k]\<close>, \<open>(max[k] - origin[k]) * inv_dir[k]\<close> and neither
  end of \<open>[tmin, tmax]\<close> is a NaN: each axis pair, which in any case consists of the
  two candidates of its axis, is ordered, entry \<open>\<le>\<close> exit; a parameter lies in the
  result exactly when it lies in all three axis pairs and in \<open>[tmin, tmax]\<close>; and the result is empty, holding no parameter at all, exactly when its
  entry is greater than its exit. The ray from \<open>(0, 0, 0)\<close> along \<open>(1, 0, 0)\<close> with window
  \<open>[0, 10]\<close>, as the per-ray constructor builds it, meets the box from \<open>(2, -1, -1)\<close> to
  \<open>(5, 1, 1)\<close> in \<open>[2, 5]\<close>.
\<close>

theorem slab_intersection:
  "(let sx = slab (x (aabb_min box)) (x (aabb_max box)) (x (origin ray)) (x (inv_dir ray));
        sy = slab (y (aabb_min box)) (y (aabb_max box)) (y (origin ray)) (y (inv_dir ray));
        sz = slab (z (aabb_min box)) (z (aabb_max box)) (z (origin ray)) (z (inv_dir ray));
        r = ray_aabb_intersect ray box
    in (sx = (candidate (x (aabb_min box)) (x (origin ray)) (x (inv_dir ray)),
               candidate (x (aabb_max box)) (x (origin ray)) (x (inv_dir ray))) \<or>
        sx = (candidate (x (aabb_max box)) (x (origin ray)) (x (inv_dir ray)),
               candidate (x (aabb_min box)) (x (origin ray)) (x (inv_dir ray)))) \<and>
       (sy = (candidate (y (aabb_min box)) (y (origin ray)) (y (inv_dir ray)),
               candidate (y (aabb_max box)) (y (origin ray)) (y (inv_dir ray))) \<or>
        sy = (candidate (y (aabb_max box)) (y (origin ray)) (y (inv_dir ray)),
               candidate (y (aabb_min box)) (y (origin ray)) (y (inv_dir ray)))) \<and>
       (sz = (candidate (z (aabb_min box)) (z (origin ray)) (z (inv_dir ray)),
               candidate (z (aabb_max box)) (z (origin ray)) (z (inv_dir ray))) \<or>
        sz = (candidate (z (aabb_max box)) (z (origin ray)) (z (inv_dir ray)),
               candidate (z (aabb_min box)) (z (origin ray)) (z (inv_dir ray)))) \<and>
       (no_nan ray box \<longrightarrow>
         fle (fst sx) (snd sx) \<and> fle (fst sy) (snd sy) \<and> fle (fst sz) (snd sz) \<and>
         (\<forall>t. in_interval r t \<longleftrightarrow>
            in_interval sx t \<and> in_interval sy t \<and> in_interval sz t \<and>
            in_interval (tmin ray, tmax ray) t) \<and>
         (empty_interval r \<longleftrightarrow> flt (snd r) (fst r)) \<and>
         (empty_interval r \<longleftrightarrow> (\<forall>t. \<not> in_interval r t)))) \<and>
   SingleRaySpec unit_x_rays 0 (Zero False) (Fin 10) = Inr ray_along_x \<and>
   AABBSpec (Ptr [Fin 2, Fin (- 1), Fin (- 1), Fin 5, Fin 1, Fin 1]) = Inr box_2_5 \<and>
   ray_aabb_intersect ray_along_x box_2_5 = (Fin 2, Fin 5)"
proof -
  define sx where "sx = slab (x (aabb_min box)) (x (aabb_max box)) (x (origin ray)) (x (inv_dir ray))"
  define sy where "sy = slab (y (aabb_min box)) (y (aabb_max box)) (y (origin ray)) (y (inv_dir ray))"
  define sz where "sz = slab (z (aabb_min box)) (z (aabb_max box)) (z (origin ray)) (z (inv_dir ray))"
  define w where "w = (tmin ray, tmax ray)"
  define r where "r = ray_aabb_intersect ray box"
  have r: "r = clip (clip (clip sx sy) sz) w"
    by (simp add: r_def sx_def sy_def sz_def w_def ray_aabb_intersect_def)
  have general: "fle (fst sx) (snd sx) \<and> fle (fst sy) (snd sy) \<and> fle (fst sz) (snd sz) \<and>
         (\<forall>t. in_interval r t \<longleftrightarrow>
            in_interval sx t \<and> in_interval sy t \<and> in_interval sz t \<and> in_interval w t) \<and>
         (empty_interval r \<longleftrightarrow> flt (snd r) (fst r)) \<and>
         (empty_interval r \<longleftrightarrow> (\<forall>t. \<not> in_interval r t))"
    if ok: "no_nan ray box"
  proof -
    have ex: "\<not> is_nan (fst sx)" "\<not> is_nan (snd sx)"
      and ey: "\<not> is_nan (fst sy)" "\<not> is_nan (snd sy)"
      and ez: "\<not> is_nan (fst sz)" "\<not> is_nan (snd sz)"
      and ew: "\<not> is_nan (fst w)" "\<not> is_nan (snd w)"
      using ok unfolding no_nan_def sx_def sy_def sz_def w_def
      by (simp_all add: slab_ends)
    note exy = clip_ends [OF ex ey]
    note exyz = clip_ends [OF exy ez]
    note er = clip_ends [OF exyz ew]
    have ordered: "fle (fst sx) (snd sx)" "fle (fst sy) (snd sy)" "fle (fst sz) (snd sz)"
      using ok unfolding no_nan_def sx_def sy_def sz_def
      by (simp_all add: slab_ordered)
    have "in_interval r t \<longleftrightarrow>
        in_interval sx t \<and> in_interval sy t \<and> in_interval sz t \<and> in_interval w t" for t
      unfolding r
      by (simp only: clip_in_interval [OF exyz ew] clip_in_interval [OF exy ez]
          clip_in_interval [OF ex ey] conj_assoc)
    moreover have "empty_interval r \<longleftrightarrow> (\<forall>t. \<not> in_interval r t)"
      using er unfolding r by (rule empty_interval_iff)
    ultimately show ?thesis
      using ordered by (simp add: empty_interval_def)
  qed
  have example: "SingleRaySpec unit_x_rays 0 (Zero False) (Fin 10) = Inr ray_along_x"
    "AABBSpec (Ptr [Fin 2, Fin (- 1), Fin (- 1), Fin 5, Fin 1, Fin 1]) = Inr box_2_5"
    "ray_aabb_intersect ray_along_x box_2_5 = (Fin 2, Fin 5)"
    by (simp_all add: unit_x_rays_def ray_along_x_def box_2_5_def SingleRaySpec_def elem0_def
        elem_def smul_def sadd_def in_range_def load_def AABBSpec_def ray_aabb_intersect_def
        float_ops)
  have pairs:
    "sx = (candidate (x (aabb_min box)) (x (origin ray)) (x (inv_dir ray)),
           candidate (x (aabb_max box)) (x (origin ray)) (x (inv_dir ray))) \<or>
     sx = (candidate (x (aabb_max box)) (x (origin ray)) (x (inv_dir ray)),
           candidate (x (aabb_min box)) (x (origin ray)) (x (inv_dir ray)))"
    "sy = (candidate (y (aabb_min box)) (y (origin ray)) (y (inv_dir ray)),
           candidate (y (aabb_max box)) (y (origin ray)) (y (inv_dir ray))) \<or>
     sy = (candidate (y (aabb_max box)) (y (origin ray)) (y (inv_dir ray)),
           candidate (y (aabb_min box)) (y (origin ray)) (y (inv_dir ray)))"
    "sz = (candidate (z (aabb_min box)) (z (origin ray)) (z (inv_dir ray)),
           candidate (z (aabb_max box)) (z (origin ray)) (z (inv_dir ray))) \<or>
     sz = (candidate (z (aabb_max box)) (z (origin ray)) (z (inv_dir ray)),
           candidate (z (aabb_min box)) (z (origin ray)) (z (inv_dir ray)))"
    by (simp_all add: sx_def sy_def sz_def slab_def Let_def)
  show ?thesis
    using pairs general example unfolding Let_def sx_def sy_def sz_def w_def r_def by blast
qed

theorem slab_intersection_witness:
  "no_nan ray_along_x box_2_5 \<and>
   slab (x (aabb_min box_2_5)) (x (aabb_max box_2_5)) (x (origin ray_along_x))
     (x (inv_dir ray_along_x)) = (Fin 2, Fin 5) \<and>
   slab (y (aabb_min box_2_5)) (y (aabb_max box_2_5)) (y (origin ray_along_x))
     (y (inv_dir ray_along_x)) = (Inf True, Inf False) \<and>
   fle (Fin 2) (Fin 5) \<and> fle (Inf True) (Inf False) \<and>
   ray_aabb_intersect ray_along_x box_2_5 = (Fin 2, Fin 5) \<and>
   \<not> empty_interval (Fin 2, Fin 5) \<and> in_interval (Fin 2, Fin 5) (Fin 3)"
proof -
  have n: "no_nan ray_along_x box_2_5"
    by (simp add: no_nan_def ray_along_x_def box_2_5_def float_ops)
  have s: "slab (x (aabb_min box_2_5)) (x (aabb_max box_2_5)) (x (origin ray_along_x))
     (x (inv_dir ray_along_x)) = (Fin 2, Fin 5)"
    "slab (y (aabb_min box_2_5)) (y (aabb_max box_2_5)) (y (origin ray_along_x))
     (y (inv_dir ray_along_x)) = (Inf True, Inf False)"
    by (simp_all add: ray_along_x_def box_2_5_def float_ops)
  have i: "in_interval (Fin 2, Fin 5) (Fin 3)"
    by (simp add: in_interval_def fle_def rank_def)
  from slab_intersection [of box_2_5 ray_along_x] n
  have "fle (fst (Fin 2, Fin 5)) (snd (Fin 2, Fin 5)) \<and>
      fle (fst (Inf True, Inf False)) (snd (Inf True, Inf False)) \<and>
      ray_aabb_intersect ray_along_x box_2_5 = (Fin 2, Fin 5) \<and>
      (empty_interval (ray_aabb_intersect ray_along_x box_2_5) \<longleftrightarrow>
         (\<forall>t. \<not> in_interval (ray_aabb_intersect ray_along_x box_2_5) t))"
    unfolding Let_def s by blast
  with n s i show ?thesis
    by auto
qed

section \<open>Ray segments: the claims\<close>



text \<open>
  Claim C4. Construction does not depend on the optional tensors. For a collection whose
  edges and \<open>chunk_cnts\<close> tensors are not zero-dimensional, the batched-capable
  constructor returns a view, whichever of \<open>is_left\<close>, \<open>is_right\<close>, \<open>chunk_starts\<close>
  and \<open>ray_ids\<close> are undefined: an undefined tensor is exposed as the null pointer and
  a defined one as the pointer to its buffer. The earlier constructor does the same for
  every collection whose \<open>chunk_cnts\<close> is defined and not zero-dimensional. And when
  either constructor fails on a collection, it fails in the same way however the four
  optional tensors are replaced: no failure is due to them.
\<close>

theorem optional_fields_may_be_absent:
  "(not_scalar (spec_edges spec) \<and> not_scalar (spec_chunk_cnts spec) \<longrightarrow>
      (\<exists>v. PackedRaySegmentsSpec spec = Inr v \<and>
           is_left v = view_of (spec_is_left spec) \<and>
           is_right v = view_of (spec_is_right spec) \<and>
           chunk_starts v = view_of (spec_chunk_starts spec) \<and>
           ray_ids v = view_of (spec_ray_ids spec) \<and>
           edges v = view_of (spec_edges spec) \<and>
           chunk_cnts v = view_of (spec_chunk_cnts spec))) \<and>
   (defined (spec_chunk_cnts spec) \<and> not_scalar (spec_chunk_cnts spec) \<longrightarrow>
      (\<exists>v. PackedRaySegmentsSpec0 spec = Inr v \<and>
           is_left0 v = view_of (spec_is_left spec) \<and>
           is_right0 v = view_of (spec_is_right spec) \<and>
           chunk_starts0 v = view_of (spec_chunk_starts spec) \<and>
           ray_ids0 v = view_of (spec_ray_ids spec) \<and>
           edges0 v = view_of (spec_edges spec) \<and>
           chunk_cnts0 v = view_of (spec_chunk_cnts spec))) \<and>
   (\<forall>a b c d e. PackedRaySegmentsSpec spec = Inl e \<longrightarrow>
      PackedRaySegmentsSpec (spec\<lparr>spec_is_left := a, spec_is_right := b,
        spec_chunk_starts := c, spec_ray_ids := d\<rparr>) = Inl e) \<and>
   (\<forall>a b c d e. PackedRaySegmentsSpec0 spec = Inl e \<longrightarrow>
      PackedRaySegmentsSpec0 (spec\<lparr>spec_is_left := a, spec_is_right := b,
        spec_chunk_starts := c, spec_ray_ids := d\<rparr>) = Inl e)"
proof (intro conjI impI allI)
  assume "not_scalar (spec_edges spec) \<and> not_scalar (spec_chunk_cnts spec)"
  then show "\<exists>v. PackedRaySegmentsSpec spec = Inr v \<and>
           is_left v = view_of (spec_is_left spec) \<and>
           is_right v = view_of (spec_is_right spec) \<and>
           chunk_starts v = view_of (spec_chunk_starts spec) \<and>
           ray_ids v = view_of (spec_ray_ids spec) \<and>
           edges v = view_of (spec_edges spec) \<and>
           chunk_cnts v = view_of (spec_chunk_cnts spec)"
    by (simp add: PackedRaySegmentsSpec_Inr)
next
  assume "defined (spec_chunk_cnts spec) \<and> not_scalar (spec_chunk_cnts spec)"
  then obtain c where "spec_chunk_cnts spec = Some c" and "sizes c \<noteq> []"
    by (auto simp add: defined_def not_scalar_def)
  then show "\<exists>v. PackedRaySegmentsSpec0 spec = Inr v \<and>
           is_left0 v = view_of (spec_is_left spec) \<and>
           is_right0 v = view_of (spec_is_right spec) \<and>
           chunk_starts0 v = view_of (spec_chunk_starts spec) \<and>
           ray_ids0 v = view_of (spec_ray_ids spec) \<and>
           edges0 v = view_of (spec_edges spec) \<and>
           chunk_cnts0 v = view_of (spec_chunk_cnts spec)"
    by (simp add: PackedRaySegmentsSpec0_Inr)
next
  fix a b c d e
  assume "PackedRaySegmentsSpec spec = Inl e"
  then show "PackedRaySegmentsSpec (spec\<lparr>spec_is_left := a, spec_is_right := b,
        spec_chunk_starts := c, spec_ray_ids := d\<rparr>) = Inl e"
    by (rule optional_fields_irrelevant)
next
  fix a b c d e
  assume "PackedRaySegmentsSpec0 spec = Inl e"
  then show "PackedRaySegmentsSpec0 (spec\<lparr>spec_is_left := a, spec_is_right := b,
        spec_chunk_starts := c, spec_ray_ids := d\<rparr>) = Inl e"
    by (rule optional_fields_irrelevant)
qed

theorem optional_fields_may_be_absent_witness:
  "not_scalar (spec_edges flat_4) \<and> not_scalar (spec_chunk_cnts flat_4) \<and>
   defined (spec_chunk_cnts flat_4) \<and>
   spec_is_left flat_4 = None \<and> spec_is_right flat_4 = None \<and>
   spec_chunk_starts flat_4 = None \<and> spec_ray_ids flat_4 = None \<and>
   (\<exists>v. PackedRaySegmentsSpec flat_4 = Inr v \<and> is_left v = nullptr \<and> is_right v = nullptr \<and>
        chunk_starts v = nullptr \<and> ray_ids v = nullptr \<and>
        edges v = Ptr [Fin 1, Fin 2, Fin 1, Fin 3] \<and> chunk_cnts v = Ptr [2, 2]) \<and>
   (\<exists>v. PackedRaySegmentsSpec0 flat_4 = Inr v \<and> is_left0 v = nullptr \<and>
        is_right0 v = nullptr \<and> chunk_starts0 v = nullptr \<and> ray_ids0 v = nullptr \<and>
        edges0 v = Ptr [Fin 1, Fin 2, Fin 1, Fin 3] \<and> chunk_cnts0 v = Ptr [2, 2])"
proof -
  note t = optional_fields_may_be_absent [of flat_4]
  have h: "not_scalar (spec_edges flat_4) \<and> not_scalar (spec_chunk_cnts flat_4)"
    and h0: "defined (spec_chunk_cnts flat_4) \<and> not_scalar (spec_chunk_cnts flat_4)"
    by (simp_all add: examples not_scalar_def defined_def)
  note late = mp [OF conjunct1 [OF t] h]
  note early = mp [OF conjunct1 [OF conjunct2 [OF t]] h0]
  have f: "spec_is_left flat_4 = None" "spec_is_right flat_4 = None"
    "spec_chunk_starts flat_4 = None" "spec_ray_ids flat_4 = None"
    "spec_edges flat_4 = Some \<lparr>sizes = [4], storage = [Fin 1, Fin 2, Fin 1, Fin 3]\<rparr>"
    "spec_chunk_cnts flat_4 = Some \<lparr>sizes = [2], storage = [2, 2]\<rparr>"
    by (simp_all add: examples)
  show ?thesis
    using late early h h0 by (simp add: f)
qed

text \<open>
  Claim C9, as stated, fails for the view's field \<open>n_edges_per_ray\<close>: with one ray of
  \<open>2^31\<close> edges the 32-bit field is \<open>- 2^31\<close>, and \<open>n_edges = 2^31\<close> is not the number of
  rays times \<open>n_edges_per_ray\<close>.
\<close>

theorem batched_edge_count_counterexample:
  "spec_edges batched_1_wide =
     Some \<lparr>sizes = [1, 2147483648], storage = replicate 2147483648 (Zero False)\<rparr> \<and>
   tensor_ok \<lparr>sizes = [1, 2147483648], storage = replicate 2147483648 (Zero False)\<rparr> \<and>
   PackedRaySegmentsSpec batched_1_wide =
     Inr \<lparr>edges = Ptr (replicate 2147483648 (Zero False)), is_batched = True,
          chunk_starts = nullptr, chunk_cnts = nullptr, ray_ids = nullptr,
          is_left = nullptr, is_right = nullptr, n_edges = 2147483648, n_rays = 0,
          n_edges_per_ray = 2147483648\<rparr> \<and>
   sint (2147483648 :: int64_t) = 2147483648 \<and>
   sint (2147483648 :: int32_t) = - 2147483648 \<and>
   sint (2147483648 :: int64_t) \<noteq> 1 * sint (2147483648 :: int32_t)"
  by (simp add: examples PackedRaySegmentsSpec_Inr not_scalar_def tensor_ok_def)

text \<open>
  Claim C9, amended. For a batched collection, whose edges tensor has the shape
  \<open>[r, e]\<close>, the view is marked batched and its \<open>n_edges\<close> is exactly \<open>r * e\<close>: the
  number of rays times the extent of the last dimension. The field \<open>n_edges_per_ray\<close>
  holds the low 32 bits of that extent: the extent itself when \<open>e < 2^31\<close>, and then
  \<open>n_edges\<close> is the number of rays times \<open>n_edges_per_ray\<close>.
\<close>

theorem batched_edge_count:
  assumes "spec_edges spec = Some t" and "sizes t = [r, e]" and "tensor_ok t"
    and "PackedRaySegmentsSpec spec = Inr v"
  shows "is_batched v \<and> sint (n_edges v) = int r * int e \<and>
         n_edges_per_ray v = of_nat e \<and>
         (e < 2 ^ 31 \<longrightarrow> sint (n_edges_per_ray v) = int e) \<and>
         (e < 2 ^ 31 \<longrightarrow> sint (n_edges v) = int r * sint (n_edges_per_ray v))"
proof -
  have ns: "not_scalar (spec_edges spec)"
    using assms(1,2) by (simp add: not_scalar_def)
  have nc: "not_scalar (spec_chunk_cnts spec)"
  proof (rule ccontr)
    assume "\<not> not_scalar (spec_chunk_cnts spec)"
    then obtain c where "spec_chunk_cnts spec = Some c" and "sizes c = []"
      by (auto simp add: not_scalar_def split: option.splits)
    then have "PackedRaySegmentsSpec spec = Inl Torch_Error"
      using assms(1,2)
      by (simp add: PackedRaySegmentsSpec_def defined_def dim_def numel_def size_at_scalar)
    with assms(4) show False by simp
  qed
  have "r * e < 2 ^ 63"
    using assms(2,3) by (simp add: tensor_ok_def)
  then have "sint (of_nat r * of_nat e :: int64_t) = int r * int e"
    using sint_of_nat_64 [of "r * e"] by simp
  then show ?thesis
    using assms PackedRaySegmentsSpec_Inr [OF ns nc] by (auto simp add: sint_of_nat_32)
qed

theorem batched_edge_count_witness:
  "spec_edges batched_2x3 = Some \<lparr>sizes = [2, 3],
       storage = [Fin 1, Fin 2, Fin 3, Fin 1, Fin 4, Fin 5]\<rparr> \<and>
   tensor_ok \<lparr>sizes = [2, 3], storage = [Fin 1, Fin 2, Fin 3, Fin 1, Fin 4, Fin 5]\<rparr> \<and>
   PackedRaySegmentsSpec batched_2x3 =
     Inr \<lparr>edges = Ptr [Fin 1, Fin 2, Fin 3, Fin 1, Fin 4, Fin 5], is_batched = True,
          chunk_starts = nullptr, chunk_cnts = nullptr, ray_ids = nullptr,
          is_left = nullptr, is_right = nullptr, n_edges = 6, n_rays = 0,
          n_edges_per_ray = 3\<rparr> \<and>
   sint (6 :: int64_t) = 2 * 3 \<and> (3::nat) < 2 ^ 31 \<and> sint (3 :: int32_t) = 3 \<and>
   sint (6 :: int64_t) = 2 * sint (3 :: int32_t)"
proof -
  let ?t = "\<lparr>sizes = [2, 3], storage = [Fin 1, Fin 2, Fin 3, Fin 1, Fin 4, Fin 5]\<rparr>"
  have e: "spec_edges batched_2x3 = Some ?t"
    by (simp add: examples)
  have s: "sizes ?t = [2, 3]"
    by simp
  have k: "tensor_ok ?t"
    by (simp add: tensor_ok_def)
  have c: "PackedRaySegmentsSpec batched_2x3 =
     Inr \<lparr>edges = Ptr [Fin 1, Fin 2, Fin 3, Fin 1, Fin 4, Fin 5], is_batched = True,
          chunk_starts = nullptr, chunk_cnts = nullptr, ray_ids = nullptr,
          is_left = nullptr, is_right = nullptr, n_edges = 6, n_rays = 0,
          n_edges_per_ray = 3\<rparr>"
    by (simp add: examples PackedRaySegmentsSpec_Inr not_scalar_def)
  show ?thesis
    using e k c batched_edge_count [OF e s k c] by simp
qed

text \<open>
  Claim C10, as stated, fails: with \<open>2^31\<close> edges in a one-dimensional edges tensor the
  32-bit \<open>n_edges_per_ray\<close> is \<open>- 2^31\<close>, while \<open>n_edges\<close> is \<open>2^31\<close>.
\<close>

theorem flattened_view_counterexample:
  "spec_edges many_edges =
     Some \<lparr>sizes = [2147483648], storage = replicate 2147483648 (Zero False)\<rparr> \<and>
   tensor_ok \<lparr>sizes = [2147483648], storage = replicate 2147483648 (Zero False)\<rparr> \<and>
   PackedRaySegmentsSpec many_edges =
     Inr \<lparr>edges = Ptr (replicate 2147483648 (Zero False)), is_batched = False,
          chunk_starts = nullptr, chunk_cnts = Ptr [2147483648], ray_ids = nullptr,
          is_left = nullptr, is_right = nullptr, n_edges = 2147483648, n_rays = 1,
          n_edges_per_ray = 2147483648\<rparr> \<and>
   sint (2147483648 :: int32_t) = - 2147483648 \<and>
   sint (2147483648 :: int64_t) = 2147483648"
  by (simp add: examples PackedRaySegmentsSpec_Inr not_scalar_def tensor_ok_def)

text \<open>
  Claim C10, amended. For a one-dimensional edges tensor of \<open>n\<close> elements, and a
  \<open>chunk_cnts\<close> that is undefined or not zero-dimensional, the batched-capable
  constructor returns a view with \<open>is_batched\<close> false, \<open>n_edges = n\<close> and
  \<open>n_edges_per_ray\<close> the low 32 bits of \<open>n_edges\<close>, which is \<open>n_edges\<close> itself when
  \<open>n < 2^31\<close>. When \<open>chunk_cnts\<close> is undefined the view is still built, with
  \<open>n_rays = 0\<close> and a null \<open>chunk_cnts\<close> pointer.
\<close>

theorem flattened_view:
  assumes "spec_edges spec = Some t" and "sizes t = [n]" and "tensor_ok t"
    and "not_scalar (spec_chunk_cnts spec)"
  shows "\<exists>v. PackedRaySegmentsSpec spec = Inr v \<and> \<not> is_batched v \<and>
           sint (n_edges v) = int n \<and>
           n_edges_per_ray v = narrow32 (n_edges v) \<and>
           (n < 2 ^ 31 \<longrightarrow> sint (n_edges_per_ray v) = sint (n_edges v)) \<and>
           (spec_chunk_cnts spec = None \<longrightarrow> n_rays v = 0 \<and> chunk_cnts v = nullptr)"
proof -
  have ns: "not_scalar (spec_edges spec)"
    using assms(1,2) by (simp add: not_scalar_def)
  have "n < 2 ^ 63"
    using assms(2,3) by (simp add: tensor_ok_def)
  then have "sint (of_nat n :: int64_t) = int n"
    by (rule sint_of_nat_64)
  then show ?thesis
    using assms(1,2) PackedRaySegmentsSpec_Inr [OF ns assms(4)]
    by (simp add: narrow32_of_nat sint_of_nat_32)
qed

theorem flattened_view_witness:
  "spec_edges flat_4_no_counts = Some \<lparr>sizes = [4], storage = [Fin 1, Fin 2, Fin 1, Fin 3]\<rparr> \<and>
   tensor_ok \<lparr>sizes = [4], storage = [Fin 1, Fin 2, Fin 1, Fin 3]\<rparr> \<and>
   not_scalar (spec_chunk_cnts flat_4_no_counts) \<and>
   spec_chunk_cnts flat_4_no_counts = None \<and> (4::nat) < 2 ^ 31 \<and>
   (\<exists>v. PackedRaySegmentsSpec flat_4_no_counts = Inr v \<and> \<not> is_batched v \<and>
        sint (n_edges v) = 4 \<and> sint (n_edges_per_ray v) = sint (n_edges v) \<and>
        n_rays v = 0 \<and> chunk_cnts v = nullptr)"
proof -
  let ?t = "\<lparr>sizes = [4], storage = [Fin 1, Fin 2, Fin 1, Fin 3]\<rparr>"
  have e: "spec_edges flat_4_no_counts = Some ?t"
    by (simp add: examples)
  have s: "sizes ?t = [4]"
    by simp
  have k: "tensor_ok ?t"
    by (simp add: tensor_ok_def)
  have c: "spec_chunk_cnts flat_4_no_counts = None"
    by (simp add: examples)
  then have n: "not_scalar (spec_chunk_cnts flat_4_no_counts)"
    by (simp add: not_scalar_def)
  show ?thesis
    using e k c n flattened_view [OF e s k n] by auto
qed

text \<open>
  Claim C5, as stated, fails on the batched-capable constructor: for a flattened
  collection without \<open>chunk_cnts\<close> it returns a view, with a null \<open>chunk_cnts\<close> pointer
  and \<open>n_rays = 0\<close>, instead of failing; and for a \<open>chunk_cnts\<close> of \<open>2^31\<close> elements
  its 32-bit \<open>n_rays\<close> is \<open>- 2^31\<close>.
\<close>

theorem chunk_cnts_requirement_counterexample:
  "spec_chunk_cnts flat_4_no_counts = None \<and>
   PackedRaySegmentsSpec flat_4_no_counts =
     Inr \<lparr>edges = Ptr [Fin 1, Fin 2, Fin 1, Fin 3], is_batched = False,
          chunk_starts = nullptr, chunk_cnts = nullptr, ray_ids = nullptr,
          is_left = nullptr, is_right = nullptr, n_edges = 4, n_rays = 0,
          n_edges_per_ray = 4\<rparr> \<and>
   spec_chunk_cnts many_rays =
     Some \<lparr>sizes = [2147483648], storage = replicate 2147483648 0\<rparr> \<and>
   tensor_ok \<lparr>sizes = [2147483648], storage = replicate 2147483648 (0 :: int64_t)\<rparr> \<and>
   PackedRaySegmentsSpec many_rays =
     Inr \<lparr>edges = Ptr [], is_batched = False,
          chunk_starts = nullptr, chunk_cnts = Ptr (replicate 2147483648 0),
          ray_ids = nullptr, is_left = nullptr, is_right = nullptr, n_edges = 0,
          n_rays = 2147483648, n_edges_per_ray = 0\<rparr> \<and>
   sint (2147483648 :: int32_t) = - 2147483648"
  by (simp add: examples PackedRaySegmentsSpec_Inr not_scalar_def tensor_ok_def)

text \<open>
  Claim C5, amended. The earlier constructor requires \<open>chunk_cnts\<close>: with
  \<open>chunk_cnts\<close> undefined it fails, at construction, with a Torch error. The
  batched-capable constructor does not: with \<open>chunk_cnts\<close> undefined it builds the view
  with a null \<open>chunk_cnts\<close> pointer and \<open>n_rays = 0\<close>. When \<open>chunk_cnts\<close> is a
  one-dimensional tensor of \<open>n\<close> elements, the earlier view's \<open>n_rays\<close> is \<open>n\<close>, and so
  is the later view's when \<open>n < 2^31\<close>.
\<close>

theorem chunk_cnts_requirement:
  "(spec_chunk_cnts spec = None \<longrightarrow>
      PackedRaySegmentsSpec0 spec = Inl Torch_Error \<and>
      (not_scalar (spec_edges spec) \<longrightarrow>
         (\<exists>v. PackedRaySegmentsSpec spec = Inr v \<and> n_rays v = 0 \<and> chunk_cnts v = nullptr))) \<and>
   (\<forall>c n. spec_chunk_cnts spec = Some c \<and> sizes c = [n] \<and> tensor_ok c \<longrightarrow>
      (\<exists>v0. PackedRaySegmentsSpec0 spec = Inr v0 \<and> sint (n_rays0 v0) = int n) \<and>
      (\<forall>v. PackedRaySegmentsSpec spec = Inr v \<and> n < 2 ^ 31 \<longrightarrow> sint (n_rays v) = int n))"
proof (intro conjI impI allI)
  assume "spec_chunk_cnts spec = None"
  then show "PackedRaySegmentsSpec0 spec = Inl Torch_Error"
    by (rule PackedRaySegmentsSpec0_undefined)
next
  assume "spec_chunk_cnts spec = None" and "not_scalar (spec_edges spec)"
  then show "\<exists>v. PackedRaySegmentsSpec spec = Inr v \<and> n_rays v = 0 \<and> chunk_cnts v = nullptr"
    by (simp add: PackedRaySegmentsSpec_Inr not_scalar_def)
next
  fix c n
  assume a: "spec_chunk_cnts spec = Some c \<and> sizes c = [n] \<and> tensor_ok c"
  then have "prod_list [n] < 2 ^ 63"
    unfolding tensor_ok_def by metis
  then have "sint (of_nat n :: int64_t) = int n"
    by (simp add: sint_of_nat_64)
  then show "\<exists>v0. PackedRaySegmentsSpec0 spec = Inr v0 \<and> sint (n_rays0 v0) = int n"
    using a by (simp add: PackedRaySegmentsSpec0_Inr [of spec c])
next
  fix c n v
  assume a: "spec_chunk_cnts spec = Some c \<and> sizes c = [n] \<and> tensor_ok c"
    and b: "PackedRaySegmentsSpec spec = Inr v \<and> n < 2 ^ 31"
  have nc: "not_scalar (spec_chunk_cnts spec)"
    using a by (simp add: not_scalar_def)
  have ns: "not_scalar (spec_edges spec)"
  proof (rule ccontr)
    assume "\<not> not_scalar (spec_edges spec)"
    then obtain t where "spec_edges spec = Some t" and "sizes t = []"
      by (auto simp add: not_scalar_def split: option.splits)
    with a b show False
      by (simp add: PackedRaySegmentsSpec_def defined_def dim_def numel_def size_at_scalar
          size_at_first)
  qed
  show "sint (n_rays v) = int n"
    using a b PackedRaySegmentsSpec_Inr [OF ns nc] by (auto simp add: sint_of_nat_32)
qed

theorem chunk_cnts_requirement_witness:
  "spec_chunk_cnts flat_4_no_counts = None \<and>
   PackedRaySegmentsSpec0 flat_4_no_counts = Inl Torch_Error \<and>
   not_scalar (spec_edges flat_4_no_counts) \<and>
   (\<exists>v. PackedRaySegmentsSpec flat_4_no_counts = Inr v \<and> n_rays v = 0 \<and>
        chunk_cnts v = nullptr) \<and>
   spec_chunk_cnts flat_4 = Some \<lparr>sizes = [2], storage = [2, 2]\<rparr> \<and>
   tensor_ok \<lparr>sizes = [2], storage = [2, 2 :: int64_t]\<rparr> \<and>
   (\<exists>v0. PackedRaySegmentsSpec0 flat_4 = Inr v0 \<and> sint (n_rays0 v0) = 2) \<and>
   PackedRaySegmentsSpec flat_4 =
     Inr \<lparr>edges = Ptr [Fin 1, Fin 2, Fin 1, Fin 3], is_batched = False,
          chunk_starts = nullptr, chunk_cnts = Ptr [2, 2], ray_ids = nullptr,
          is_left = nullptr, is_right = nullptr, n_edges = 4, n_rays = 2,
          n_edges_per_ray = 4\<rparr> \<and>
   (2::nat) < 2 ^ 31 \<and> sint (2 :: int32_t) = 2"
proof -
  have a: "spec_chunk_cnts flat_4_no_counts = None"
    by (simp add: examples)
  have b: "not_scalar (spec_edges flat_4_no_counts)"
    by (simp add: examples not_scalar_def)
  have c: "spec_chunk_cnts flat_4 = Some \<lparr>sizes = [2], storage = [2, 2]\<rparr> \<and>
      sizes \<lparr>sizes = [2], storage = [2, 2 :: int64_t]\<rparr> = [2] \<and>
      tensor_ok \<lparr>sizes = [2], storage = [2, 2 :: int64_t]\<rparr>"
    by (simp add: examples tensor_ok_def)
  have d: "PackedRaySegmentsSpec flat_4 =
     Inr \<lparr>edges = Ptr [Fin 1, Fin 2, Fin 1, Fin 3], is_batched = False,
          chunk_starts = nullptr, chunk_cnts = Ptr [2, 2], ray_ids = nullptr,
          is_left = nullptr, is_right = nullptr, n_edges = 4, n_rays = 2,
          n_edges_per_ray = 4\<rparr>"
    by (simp add: examples PackedRaySegmentsSpec_Inr not_scalar_def)
  from chunk_cnts_requirement [of flat_4_no_counts] a b
  have 1: "PackedRaySegmentsSpec0 flat_4_no_counts = Inl Torch_Error \<and>
     (\<exists>v. PackedRaySegmentsSpec flat_4_no_counts = Inr v \<and> n_rays v = 0 \<and>
        chunk_cnts v = nullptr)"
    by blast
  from chunk_cnts_requirement [of flat_4] c
  have 2: "\<exists>v0. PackedRaySegmentsSpec0 flat_4 = Inr v0 \<and> sint (n_rays0 v0) = 2"
    by fastforce
  show ?thesis
    using a b c d 1 2 by simp
qed

text \<open>
  Claim C8, as stated, fails: for \<open>2^31\<close> rays the earlier view has \<open>n_rays = 2^31\<close>
  and the later one, whose field is 32 bits wide, \<open>n_rays = - 2^31\<close>.
\<close>

theorem later_variant_subsumes_counterexample:
  "PackedRaySegmentsSpec0 many_rays =
     Inr \<lparr>edges0 = Ptr [], is_left0 = nullptr, is_right0 = nullptr,
          chunk_starts0 = nullptr, chunk_cnts0 = Ptr (replicate 2147483648 0),
          ray_ids0 = nullptr, n_edges0 = 0, n_rays0 = 2147483648\<rparr> \<and>
   spec_edges many_rays = Some \<lparr>sizes = [0], storage = []\<rparr> \<and>
   spec_chunk_cnts many_rays =
     Some \<lparr>sizes = [2147483648], storage = replicate 2147483648 0\<rparr> \<and>
   tensor_ok \<lparr>sizes = [2147483648], storage = replicate 2147483648 (0 :: int64_t)\<rparr> \<and>
   PackedRaySegmentsSpec many_rays =
     Inr \<lparr>edges = Ptr [], is_batched = False,
          chunk_starts = nullptr, chunk_cnts = Ptr (replicate 2147483648 0),
          ray_ids = nullptr, is_left = nullptr, is_right = nullptr, n_edges = 0,
          n_rays = 2147483648, n_edges_per_ray = 0\<rparr> \<and>
   sint (2147483648 :: int64_t) = 2147483648 \<and>
   sint (2147483648 :: int32_t) = - 2147483648"
  by (simp add: examples PackedRaySegmentsSpec_Inr
      PackedRaySegmentsSpec0_Inr [of _ "\<lparr>sizes = [2147483648], storage = replicate 2147483648 0\<rparr>"]
      not_scalar_def tensor_ok_def)

text \<open>
  Claim C8, amended. For every collection the earlier constructor accepts and whose
  edges tensor is one-dimensional, the later constructor returns a view with the same
  six pointers and the same \<open>n_edges\<close>; its \<open>n_rays\<close> is the low 32 bits of the earlier
  \<open>n_rays\<close>, hence the same value whenever that value fits 32 bits.
\<close>

theorem later_variant_subsumes:
  assumes "PackedRaySegmentsSpec0 spec = Inr v0"
    and "spec_edges spec = Some t" and "sizes t = [n]"
  shows "\<exists>v. PackedRaySegmentsSpec spec = Inr v \<and>
           edges v = edges0 v0 \<and> is_left v = is_left0 v0 \<and> is_right v = is_right0 v0 \<and>
           chunk_starts v = chunk_starts0 v0 \<and> chunk_cnts v = chunk_cnts0 v0 \<and>
           ray_ids v = ray_ids0 v0 \<and> n_edges v = n_edges0 v0 \<and>
           n_rays v = narrow32 (n_rays0 v0) \<and>
           (- (2 ^ 31) \<le> sint (n_rays0 v0) \<and> sint (n_rays0 v0) < 2 ^ 31 \<longrightarrow>
              sint (n_rays v) = sint (n_rays0 v0))"
proof -
  obtain c where c: "spec_chunk_cnts spec = Some c" "sizes c \<noteq> []"
    using assms(1) by (rule PackedRaySegmentsSpec0_accepts)
  have ns: "not_scalar (spec_edges spec)" and nc: "not_scalar (spec_chunk_cnts spec)"
    using assms(2,3) c by (simp_all add: not_scalar_def)
  have v0: "v0 = \<lparr>edges0 = view_of (spec_edges spec),
         is_left0 = view_of (spec_is_left spec),
         is_right0 = view_of (spec_is_right spec),
         chunk_starts0 = view_of (spec_chunk_starts spec),
         chunk_cnts0 = Ptr (storage c),
         ray_ids0 = view_of (spec_ray_ids spec),
         n_edges0 = (case spec_edges spec of None \<Rightarrow> 0 | Some t \<Rightarrow> of_nat (prod_list (sizes t))),
         n_rays0 = of_nat (hd (sizes c))\<rparr>"
    using assms(1) PackedRaySegmentsSpec0_Inr [OF c] by simp
  have nr: "(of_nat (hd (sizes c)) :: int32_t) = narrow32 (of_nat (hd (sizes c)))"
    by (simp add: narrow32_of_nat)
  show ?thesis
    using PackedRaySegmentsSpec_Inr [OF ns nc] c
    by (simp add: v0 nr sint_narrow32)
qed

theorem later_variant_subsumes_witness:
  "PackedRaySegmentsSpec0 flat_4 =
     Inr \<lparr>edges0 = Ptr [Fin 1, Fin 2, Fin 1, Fin 3], is_left0 = nullptr, is_right0 = nullptr,
          chunk_starts0 = nullptr, chunk_cnts0 = Ptr [2, 2], ray_ids0 = nullptr,
          n_edges0 = 4, n_rays0 = 2\<rparr> \<and>
   spec_edges flat_4 = Some \<lparr>sizes = [4], storage = [Fin 1, Fin 2, Fin 1, Fin 3]\<rparr> \<and>
   - (2 ^ 31) \<le> sint (2 :: int64_t) \<and> sint (2 :: int64_t) < 2 ^ 31 \<and>
   (\<exists>v. PackedRaySegmentsSpec flat_4 = Inr v \<and>
        edges v = Ptr [Fin 1, Fin 2, Fin 1, Fin 3] \<and> is_left v = nullptr \<and>
        is_right v = nullptr \<and> chunk_starts v = nullptr \<and> chunk_cnts v = Ptr [2, 2] \<and>
        ray_ids v = nullptr \<and> n_edges v = 4 \<and> sint (n_rays v) = 2)"
proof -
  let ?t = "\<lparr>sizes = [4], storage = [Fin 1, Fin 2, Fin 1, Fin 3]\<rparr>"
  have a: "PackedRaySegmentsSpec0 flat_4 =
     Inr \<lparr>edges0 = Ptr [Fin 1, Fin 2, Fin 1, Fin 3], is_left0 = nullptr, is_right0 = nullptr,
          chunk_starts0 = nullptr, chunk_cnts0 = Ptr [2, 2], ray_ids0 = nullptr,
          n_edges0 = 4, n_rays0 = 2\<rparr>"
    by (simp add: examples PackedRaySegmentsSpec0_Inr [of _ "\<lparr>sizes = [2], storage = [2, 2]\<rparr>"])
  have e: "spec_edges flat_4 = Some ?t"
    by (simp add: examples)
  have s: "sizes ?t = [4]"
    by simp
  show ?thesis
    using a e later_variant_subsumes [OF a e s] by auto
qed

section \<open>Occupancy lookup: the claim\<close>




section \<open>The multiscale grid: the claim\<close>

text \<open>
  Claim C7, as stated, fails: for a grid of shape \<open>[1, 2^31, 1, 1]\<close> the view's
  resolution, three \<^verbatim>\<open>int32_t\<close>, has \<open>x = - 2^31\<close> and not \<open>2^31\<close>.
\<close>

theorem grid_view_counterexample:
  "spec_data wide_grid =
     Some \<lparr>sizes = [1, 2147483648, 1, 1], storage = replicate 2147483648 (Fin 1)\<rparr> \<and>
   spec_occupied wide_grid =
     Some \<lparr>sizes = [1, 2147483648, 1, 1], storage = replicate 2147483648 True\<rparr> \<and>
   tensor_ok \<lparr>sizes = [1, 2147483648, 1, 1], storage = replicate 2147483648 (Fin 1)\<rparr> \<and>
   tensor_ok \<lparr>sizes = [1, 2147483648, 1, 1], storage = replicate 2147483648 True\<rparr> \<and>
   PackedMultiScaleGridSpec wide_grid =
     Inr \<lparr>data = Ptr (replicate 2147483648 (Fin 1)),
          occupied = Ptr (replicate 2147483648 True),
          base_aabb = Ptr [Fin (- 1), Fin (- 1), Fin (- 1), Fin 1, Fin 1, Fin 1],
          levels = 1, resolution = \<lparr>x = 2147483648, y = 1, z = 1\<rparr>\<rparr> \<and>
   sint (2147483648 :: int32_t) = - 2147483648"
  by (simp add: wide_grid_def tensor_ok_def PackedMultiScaleGridSpec_def data_ptr_def
      size_at_def narrow32_def)

text \<open>
  Claim C7, amended. For a grid whose data and occupied tensors have the shape
  \<open>[l, nx, ny, nz]\<close> and whose \<open>base_aabb\<close> holds six values, both variants of the
  constructor return a view with the pointers to the three buffers, with \<open>levels\<close> the low
  32 bits of \<open>l\<close> and \<open>resolution\<close> the low 32 bits of \<open>nx\<close>, \<open>ny\<close> and \<open>nz\<close>: the
  extents themselves when they are below \<open>2^31\<close>. The one \<open>levels\<close> and \<open>resolution\<close> are
  the bounds for both arrays. The box constructor reads \<open>base_aabb\<close> as the min corner
  (its first three values) followed by the max corner (its last three).
\<close>

theorem grid_view:
  assumes "spec_data spec = Some d" and "sizes d = [l, nx, ny, nz]"
    and "spec_occupied spec = Some oc" and "sizes oc = [l, nx, ny, nz]"
    and "spec_base_aabb spec = Some b" and "storage b = [b0, b1, b2, b3, b4, b5]"
  shows "(\<exists>g. PackedMultiScaleGridSpec spec = Inr g \<and>
            data g = Ptr (storage d) \<and> occupied g = Ptr (storage oc) \<and>
            levels g = of_nat l \<and>
            resolution g = \<lparr>x = of_nat nx, y = of_nat ny, z = of_nat nz\<rparr> \<and>
            (l < 2 ^ 31 \<longrightarrow> sint (levels g) = int l) \<and>
            (nx < 2 ^ 31 \<longrightarrow> sint (x (resolution g)) = int nx) \<and>
            (ny < 2 ^ 31 \<longrightarrow> sint (y (resolution g)) = int ny) \<and>
            (nz < 2 ^ 31 \<longrightarrow> sint (z (resolution g)) = int nz) \<and>
            AABBSpec (base_aabb g) =
              Inr \<lparr>aabb_min = \<lparr>x = b0, y = b1, z = b2\<rparr>,
                   aabb_max = \<lparr>x = b3, y = b4, z = b5\<rparr>\<rparr>) \<and>
         (\<exists>g. PackedMultiScaleGridSpec0 spec = Inr g \<and>
            data0 g = Ptr (storage d) \<and> binary g = Ptr (storage oc) \<and>
            levels0 g = of_nat l \<and>
            resolution0 g = \<lparr>x = of_nat nx, y = of_nat ny, z = of_nat nz\<rparr> \<and>
            (l < 2 ^ 31 \<longrightarrow> sint (levels0 g) = int l) \<and>
            (nx < 2 ^ 31 \<longrightarrow> sint (x (resolution0 g)) = int nx) \<and>
            (ny < 2 ^ 31 \<longrightarrow> sint (y (resolution0 g)) = int ny) \<and>
            (nz < 2 ^ 31 \<longrightarrow> sint (z (resolution0 g)) = int nz) \<and>
            AABBSpec (base_aabb0 g) =
              Inr \<lparr>aabb_min = \<lparr>x = b0, y = b1, z = b2\<rparr>,
                   aabb_max = \<lparr>x = b3, y = b4, z = b5\<rparr>\<rparr>)"
  using assms
  by (simp add: PackedMultiScaleGridSpec_def PackedMultiScaleGridSpec0_def data_ptr_def
      size_at_4 [of d] narrow32_of_nat sint_of_nat_32 AABBSpec_Inr)

theorem grid_view_witness:
  "spec_data small_grid = Some \<lparr>sizes = [2, 2, 2, 2], storage = replicate 16 (Fin 1)\<rparr> \<and>
   spec_occupied small_grid = Some \<lparr>sizes = [2, 2, 2, 2], storage = replicate 16 True\<rparr> \<and>
   spec_base_aabb small_grid = Some \<lparr>sizes = [6],
        storage = [Fin (- 1), Fin (- 1), Fin (- 1), Fin 1, Fin 1, Fin 1]\<rparr> \<and>
   (2 :: nat) < 2 ^ 31 \<and>
   (\<exists>g. PackedMultiScaleGridSpec small_grid = Inr g \<and>
      data g = Ptr (replicate 16 (Fin 1)) \<and> occupied g = Ptr (replicate 16 True) \<and>
      sint (levels g) = 2 \<and> sint (x (resolution g)) = 2 \<and> sint (y (resolution g)) = 2 \<and>
      sint (z (resolution g)) = 2 \<and>
      AABBSpec (base_aabb g) =
        Inr \<lparr>aabb_min = \<lparr>x = Fin (- 1), y = Fin (- 1), z = Fin (- 1)\<rparr>,
             aabb_max = \<lparr>x = Fin 1, y = Fin 1, z = Fin 1\<rparr>\<rparr>) \<and>
   (\<exists>g. PackedMultiScaleGridSpec0 small_grid = Inr g \<and>
      data0 g = Ptr (replicate 16 (Fin 1)) \<and> binary g = Ptr (replicate 16 True) \<and>
      sint (levels0 g) = 2 \<and> sint (x (resolution0 g)) = 2 \<and> sint (y (resolution0 g)) = 2 \<and>
      sint (z (resolution0 g)) = 2 \<and>
      AABBSpec (base_aabb0 g) =
        Inr \<lparr>aabb_min = \<lparr>x = Fin (- 1), y = Fin (- 1), z = Fin (- 1)\<rparr>,
             aabb_max = \<lparr>x = Fin 1, y = Fin 1, z = Fin 1\<rparr>\<rparr>)"
proof -
  let ?d = "\<lparr>sizes = [2, 2, 2, 2], storage = replicate 16 (Fin 1)\<rparr>"
  let ?oc = "\<lparr>sizes = [2, 2, 2, 2], storage = replicate 16 True\<rparr>"
  let ?b = "\<lparr>sizes = [6], storage = [Fin (- 1), Fin (- 1), Fin (- 1), Fin 1, Fin 1, Fin 1]\<rparr>"
  have a: "spec_data small_grid = Some ?d" and b: "sizes ?d = [2, 2, 2, 2]"
    and c: "spec_occupied small_grid = Some ?oc" and d: "sizes ?oc = [2, 2, 2, 2]"
    and e: "spec_base_aabb small_grid = Some ?b"
    and f: "storage ?b = [Fin (- 1), Fin (- 1), Fin (- 1), Fin 1, Fin 1, Fin 1]"
    by (simp_all add: small_grid_def)
  show ?thesis
    using a c e grid_view [OF a b c d e f] by auto
qed

end
